theory Spec2Isabelle
  imports Main "HOL-Library.Finite_Map" "HOL-Library.Multiset"
begin

section \<open>Data model\<close>

text \<open>
  The embedding follows the second (scope-aware) revision of \<^verbatim>\<open>index.js\<close>, whose
  operations take \<^verbatim>\<open>(type, envId, ...)\<close>; the lookup and the attach of the first
  revision are embedded after it.
  The parameter \<^verbatim>\<open>type\<close> is only ever compared with \<^verbatim>\<open>"firm"\<close> and \<^verbatim>\<open>"partner"\<close>;
  \<^verbatim>\<open>templateType\<close> is one of the four kinds the \<^verbatim>\<open>switch\<close> statements list.
\<close>

datatype scope = Firm | Partner

datatype template_type = ReconciliationText | ExportFile | AccountTemplate | SharedPart

text \<open>The string a template kind is written as in a config file.\<close>

fun type_name :: "template_type \<Rightarrow> string" where
  "type_name ReconciliationText = ''reconciliationText''"
| "type_name ExportFile = ''exportFile''"
| "type_name AccountTemplate = ''accountTemplate''"
| "type_name SharedPart = ''sharedPart''"

type_synonym env_id = nat
type_synonym remote_id = nat

text \<open>
  A JavaScript object used as a dictionary from environment ids to remote ids: a finite
  map. \<^verbatim>\<open>Object.keys(m).length\<close> is \<open>fcard (fmdom m)\<close>, \<^verbatim>\<open>m[k] = v\<close> is \<open>fmupd k v m\<close>,
  \<^verbatim>\<open>delete m[k]\<close> is \<open>fmdrop k m\<close>, and \<^verbatim>\<open>m[k]\<close> is \<open>fmlookup m k\<close> with \<open>None\<close> for
  \<^verbatim>\<open>undefined\<close>.
\<close>

type_synonym idmap = "(env_id, remote_id) fmap"

text \<open>
  One element of \<^verbatim>\<open>used_in\<close>. Every field may be missing from the parsed JSON; the code
  reads \<^verbatim>\<open>handle\<close> and \<^verbatim>\<open>name\<close>, and dereferences \<^verbatim>\<open>id\<close> and \<^verbatim>\<open>partnerId\<close> unguarded.
\<close>

record usage_entry =
  ue_id :: "idmap option"
  ue_partnerId :: "idmap option"
  ue_type :: string
  ue_handle :: "string option"
  ue_name :: "string option"

text \<open>The fields of a config record that the modelled operations touch.\<close>

record config =
  cfg_id :: "idmap option"
  cfg_partnerId :: "idmap option"
  cfg_used_in :: "usage_entry list option"

text \<open>A template as the platform returns it (found by handle, listed in a page, echoed).\<close>

record remote =
  r_id :: remote_id
  r_handle :: "string option"
  r_name :: "string option"
  r_name_nl :: "string option"

text \<open>A gateway response object: \<^verbatim>\<open>{status, data}\<close>, either of which may be missing.\<close>

record response =
  status :: "nat option"
  data :: "remote option"

text \<open>A template body read from disk, with the two fields publish stamps on it.\<close>

record body =
  text_parts :: string
  version_comment :: "string option"
  version_significant_change :: "bool option"

text \<open>The value an awaited promise settles to: rejection makes \<^verbatim>\<open>await\<close> throw.\<close>

datatype 'a reply = Rejects | Resolves 'a

text \<open>
  How a call of an operation ends: it returns a value, it lets an exception escape (the
  async function's promise rejects), or a helper terminated the process.
\<close>

datatype 'a outcome = Returned 'a | Threw | Exited

section \<open>Collaborators\<close>

text \<open>
  The modules \<^verbatim>\<open>SF\<close> (platform gateway), \<^verbatim>\<open>errorUtils\<close> and the template classes are
  required by \<^verbatim>\<open>index.js\<close> but are not part of the sources at hand, so they are
  parameters: each gateway operation is a function from its arguments to the value its
  promise settles to, a template body store gives what \<^verbatim>\<open>X.read(handle)\<close> returns, a
  function says how \<^verbatim>\<open>X.save\<close> ends, two flags say whether the \<^verbatim>\<open>errorUtils\<close>
  helpers terminate the process, and one says whether the host ends the process on an
  unhandled rejection (the library installs no handler of its own).
\<close>

text \<open>
  How a call of \<^verbatim>\<open>X.save\<close> of a template class ends: it saves, it throws at once, or it
  returns a promise that rejects later.
\<close>

datatype save_end = Saved | SaveThrows | SaveRejects

text \<open>
  A page read gives the list of records the importer takes the length of: the value itself
  for reconciliations, export files and account templates, \<^verbatim>\<open>response.data\<close> for shared
  parts; \<open>None\<close> is a missing value, whose \<^verbatim>\<open>.length\<close> (or \<^verbatim>\<open>.data\<close>) throws.
\<close>

record collab =
  SF_find :: "scope \<Rightarrow> env_id \<Rightarrow> template_type \<Rightarrow> string \<Rightarrow> remote option reply"
  SF_readReconciliationTexts :: "scope \<Rightarrow> env_id \<Rightarrow> nat \<Rightarrow> remote list option reply"
  SF_readExportFiles :: "scope \<Rightarrow> env_id \<Rightarrow> nat \<Rightarrow> remote list option reply"
  SF_readAccountTemplates :: "scope \<Rightarrow> env_id \<Rightarrow> nat \<Rightarrow> remote list option reply"
  SF_readSharedParts :: "scope \<Rightarrow> env_id \<Rightarrow> nat \<Rightarrow> remote list option reply"
  SF_readSharedPartById :: "scope \<Rightarrow> env_id \<Rightarrow> remote_id \<Rightarrow> response option reply"
  SF_readExportFileById :: "scope \<Rightarrow> env_id \<Rightarrow> remote_id \<Rightarrow> remote option reply"
  save_template :: "template_type \<Rightarrow> scope \<Rightarrow> env_id \<Rightarrow> remote \<Rightarrow> save_end"
  SF_update :: "scope \<Rightarrow> env_id \<Rightarrow> template_type \<Rightarrow> remote_id option \<Rightarrow> body
                  \<Rightarrow> response option reply"
  SF_createAccountTemplate :: "env_id \<Rightarrow> body \<Rightarrow> response option reply"
  SF_addSharedPart :: "scope \<Rightarrow> env_id \<Rightarrow> template_type \<Rightarrow> remote_id option
                  \<Rightarrow> remote_id option \<Rightarrow> response option reply"
  SF_removeSharedPart :: "scope \<Rightarrow> env_id \<Rightarrow> template_type \<Rightarrow> remote_id option
                  \<Rightarrow> remote_id option \<Rightarrow> response option reply"
  read_body :: "template_type \<Rightarrow> string \<Rightarrow> body option"
  missingId_exits :: bool
  errorHandler_exits :: bool
  unhandledRejection_exits :: bool

text \<open>
  What an operation does to the outside world, in the order it does it: accesses to config
  files and template bodies, gateway calls, calls of the template classes and of
  \<^verbatim>\<open>errorUtils\<close>. Of the console output only the messages that decide a property below
  are recorded: the debug line of detach and the "nothing found" line of the import. A
  promise that rejects with nobody awaiting it is recorded as an unhandled rejection.
\<close>

datatype gw_call =
  Find scope env_id template_type string
| ReadPage scope env_id template_type nat
| ReadById scope env_id template_type remote_id
| Update scope env_id template_type "remote_id option" body
| Create env_id template_type body
| Attach scope env_id template_type "remote_id option" "remote_id option"
| Detach scope env_id template_type "remote_id option" "remote_id option"

datatype event =
  ConfigExists template_type string
| ReadConfig template_type string
| WriteConfig template_type string config
| ReadBody template_type string
| Gateway gw_call
| Save template_type scope env_id remote
| UnhandledRejection
| UpdateTemplateId template_type env_id "string option" remote_id
| RemovedOnPlatform
| NothingFound template_type
| MissingId template_type string
| ErrorHandler

text \<open>
  The local state: what \<^verbatim>\<open>fsUtils.readConfig\<close> returns for each template (for a template
  without a config file, whatever default the config store hands out), which config files
  exist (\<^verbatim>\<open>fsUtils.configExists\<close>), and the trace of effects so far.
\<close>

record world =
  configs :: "template_type \<times> string \<Rightarrow> config"
  present :: "template_type \<times> string \<Rightarrow> bool"
  trace :: "event list"

definition emit :: "event \<Rightarrow> world \<Rightarrow> world" where
  "emit e w = w\<lparr>trace := trace w @ [e]\<rparr>"

definition readConfig :: "template_type \<Rightarrow> string \<Rightarrow> world \<Rightarrow> config \<times> world" where
  "readConfig tt h w = (configs w (tt, h), emit (ReadConfig tt h) w)"

definition writeConfig :: "template_type \<Rightarrow> string \<Rightarrow> config \<Rightarrow> world \<Rightarrow> world" where
  "writeConfig tt h c w =
     emit (WriteConfig tt h c)
       (w\<lparr>configs := (configs w)((tt, h) := c), present := (present w)((tt, h) := True)\<rparr>)"

definition configExists :: "template_type \<Rightarrow> string \<Rightarrow> world \<Rightarrow> bool \<times> world" where
  "configExists tt h w = (present w (tt, h), emit (ConfigExists tt h) w)"

text \<open>JavaScript truthiness of a remote id read out of a map (\<^verbatim>\<open>!templateId\<close>).\<close>

fun truthy :: "nat option \<Rightarrow> bool" where
  "truthy None = False"
| "truthy (Some n) = (n \<noteq> 0)"

text \<open>JavaScript truthiness of an optional string field: missing and empty are falsy.\<close>

fun truthy_str :: "string option \<Rightarrow> bool" where
  "truthy_str None = False"
| "truthy_str (Some s) = (s \<noteq> [])"

text \<open>
  \<^verbatim>\<open>type == "firm" ? config?.id?.[envId] : config?.partnerId?.[envId]\<close>
\<close>

definition scopedId :: "scope \<Rightarrow> env_id \<Rightarrow> config \<Rightarrow> remote_id option" where
  "scopedId sc env c =
     (case sc of
        Firm \<Rightarrow> (case cfg_id c of None \<Rightarrow> None | Some m \<Rightarrow> fmlookup m env)
      | Partner \<Rightarrow> (case cfg_partnerId c of None \<Rightarrow> None | Some m \<Rightarrow> fmlookup m env))"

section \<open>Identity resolution\<close>

text \<open>
  \<^verbatim>\<open>getTemplateId(type, envId, templateType, handle)\<close>: the gateway lookup for the kind, then
  \<^verbatim>\<open>if (!templateText) return false\<close>, and only afterwards the read of the config, the
  initialisation of missing \<^verbatim>\<open>id\<close> and \<^verbatim>\<open>partnerId\<close> objects, the store under
  \<^verbatim>\<open>envId\<close> and the write. The function has no \<^verbatim>\<open>try\<close>: a rejected lookup escapes.
\<close>

definition getTemplateId ::
  "collab \<Rightarrow> scope \<Rightarrow> env_id \<Rightarrow> template_type \<Rightarrow> string \<Rightarrow> world \<Rightarrow> bool outcome \<times> world"
where
  "getTemplateId d sc env tt h w0 =
     (let w1 = emit (Gateway (Find sc env tt h)) w0 in
      case SF_find d sc env tt h of
        Rejects \<Rightarrow> (Threw, w1)
      | Resolves None \<Rightarrow> (Returned False, w1)
      | Resolves (Some templateText) \<Rightarrow>
          (let (config0, w2) = readConfig tt h w1;
               config1 = (if cfg_id config0 = None
                          then config0\<lparr>cfg_id := Some fmempty\<rparr> else config0);
               config2 = (if cfg_partnerId config1 = None
                          then config1\<lparr>cfg_partnerId := Some fmempty\<rparr> else config1);
               config3 = (case sc of
                            Firm \<Rightarrow> config2\<lparr>cfg_id :=
                                      map_option (fmupd env (r_id templateText)) (cfg_id config2)\<rparr>
                          | Partner \<Rightarrow> config2\<lparr>cfg_partnerId :=
                                      map_option (fmupd env (r_id templateText))
                                        (cfg_partnerId config2)\<rparr>)
           in (Returned True, writeConfig tt h config3 w2)))"

text \<open>The maps of a config, with a missing object read as the empty one.\<close>

definition id_map :: "config \<Rightarrow> idmap" where
  "id_map c = (case cfg_id c of None \<Rightarrow> fmempty | Some m \<Rightarrow> m)"

definition partnerId_map :: "config \<Rightarrow> idmap" where
  "partnerId_map c = (case cfg_partnerId c of None \<Rightarrow> fmempty | Some m \<Rightarrow> m)"

section \<open>Error helpers\<close>

text \<open>
  \<^verbatim>\<open>catch (error) { errorUtils.errorHandler(error); return v; }\<close> around a body: a thrown
  error reaches the handler, after which the function returns \<open>v\<close> unless the handler
  ended the process.
\<close>

definition errorHandler :: "collab \<Rightarrow> 'a \<Rightarrow> world \<Rightarrow> 'a outcome \<times> world" where
  "errorHandler d v w = (if errorHandler_exits d then Exited else Returned v, emit ErrorHandler w)"

definition catching :: "collab \<Rightarrow> 'a \<Rightarrow> 'a outcome \<times> world \<Rightarrow> 'a outcome \<times> world" where
  "catching d v r = (case r of (Threw, w) \<Rightarrow> errorHandler d v w | _ \<Rightarrow> r)"

text \<open>\<^verbatim>\<open>errorUtils.missingXId(handle); return v;\<close>\<close>

definition missingId ::
  "collab \<Rightarrow> template_type \<Rightarrow> string \<Rightarrow> 'a \<Rightarrow> world \<Rightarrow> 'a outcome \<times> world"
where
  "missingId d tt h v w = (if missingId_exits d then Exited else Returned v, emit (MissingId tt h) w)"

section \<open>Attach\<close>

text \<open>\<^verbatim>\<open>Array.prototype.findIndex\<close>, with \<open>None\<close> for \<^verbatim>\<open>-1\<close>.\<close>

fun findIndex :: "('a \<Rightarrow> bool) \<Rightarrow> 'a list \<Rightarrow> nat option" where
  "findIndex P [] = None"
| "findIndex P (x # xs) = (if P x then Some 0 else map_option Suc (findIndex P xs))"

text \<open>
  The predicate both attach and detach search \<^verbatim>\<open>used_in\<close> with:
  \<^verbatim>\<open>templateHandle === template.handle || templateHandle === template.name\<close>.
\<close>

definition matches :: "string \<Rightarrow> usage_entry \<Rightarrow> bool" where
  "matches templateHandle u = (ue_handle u = Some templateHandle \<or> ue_name u = Some templateHandle)"

text \<open>
  The block that runs when an id is missing: discovery through \<^verbatim>\<open>getTemplateId\<close>,
  \<^verbatim>\<open>if (!updated) return false\<close>, then the config is read again and the id recomputed.
  \<open>Returned None\<close> stands for the early \<^verbatim>\<open>return false\<close> of the enclosing function.
\<close>

definition discoverIfMissing ::
  "collab \<Rightarrow> scope \<Rightarrow> env_id \<Rightarrow> template_type \<Rightarrow> string \<Rightarrow> config \<Rightarrow> remote_id option \<Rightarrow> world
     \<Rightarrow> (config \<times> remote_id option) option outcome \<times> world"
where
  "discoverIfMissing d sc env tt h cfg i w =
     (if truthy i then (Returned (Some (cfg, i)), w)
      else case getTemplateId d sc env tt h w of
             (Returned updated, w') \<Rightarrow>
               if \<not> updated then (Returned None, w')
               else (let (cfg', w'') = readConfig tt h w'
                     in (Returned (Some (cfg', scopedId sc env cfg')), w''))
           | (Threw, w') \<Rightarrow> (Threw, w')
           | (Exited, w') \<Rightarrow> (Exited, w'))"

text \<open>
  A boolean compared with a number by \<^verbatim>\<open>===\<close>: never equal. The third disjunct of the
  success test, \<^verbatim>\<open>!response.status === 201\<close>, parses as \<^verbatim>\<open>(!response.status) === 201\<close>.
\<close>

definition strict_eq_bool_num :: "bool \<Rightarrow> nat \<Rightarrow> bool" where
  "strict_eq_bool_num b n = False"

text \<open>\<^verbatim>\<open>!response || !response.status || !response.status === 201\<close>\<close>

definition attach_failed :: "response option \<Rightarrow> bool" where
  "attach_failed response =
     (case response of
        None \<Rightarrow> True
      | Some r \<Rightarrow> \<not> truthy (status r) \<or> strict_eq_bool_num (\<not> truthy (status r)) 201)"

text \<open>
  \<^verbatim>\<open>m[envId] = v\<close> where \<open>v\<close> was itself read from a map: an \<^verbatim>\<open>undefined\<close> value is a key
  that \<^verbatim>\<open>JSON.stringify\<close> leaves out of the written file.
\<close>

definition assign :: "env_id \<Rightarrow> remote_id option \<Rightarrow> idmap \<Rightarrow> idmap" where
  "assign env v m = (case v of None \<Rightarrow> fmdrop env m | Some x \<Rightarrow> fmupd env x m)"

text \<open>
  The bookkeeping of \<^verbatim>\<open>addSharedPart\<close> after a response that passed the test ("Store
  details in config files"): the entry is looked up by handle or name; a new entry takes
  the template's whole map of the active scope and an empty map for the other scope; an
  entry found has \<^verbatim>\<open>envId\<close> set in the map of the active scope. \<open>None\<close> is the
  \<^verbatim>\<open>TypeError\<close> of indexing a missing map.
\<close>

definition storeUsedIn ::
  "scope \<Rightarrow> env_id \<Rightarrow> config \<Rightarrow> string \<Rightarrow> template_type \<Rightarrow> config \<Rightarrow> config option"
where
  "storeUsedIn sc env templateConfig templateHandle templateType sharedPartConfig =
     (let used_in = (case cfg_used_in sharedPartConfig of None \<Rightarrow> [] | Some us \<Rightarrow> us);
          templateIndex = (case cfg_used_in sharedPartConfig of
                             None \<Rightarrow> None
                           | Some us \<Rightarrow> findIndex (matches templateHandle) us)
      in case templateIndex of
           None \<Rightarrow>
             Some (sharedPartConfig\<lparr>cfg_used_in := Some (used_in @
               [\<lparr>ue_id = (if sc = Firm then cfg_id templateConfig else Some fmempty),
                 ue_partnerId = (if sc = Partner then cfg_partnerId templateConfig
                                 else Some fmempty),
                 ue_type = type_name templateType,
                 ue_handle = Some templateHandle,
                 ue_name = None\<rparr>])\<rparr>)
         | Some i \<Rightarrow>
             (let usedInTemplateConfig = used_in ! i in
              case sc of
                Firm \<Rightarrow>
                  (case (ue_id usedInTemplateConfig, cfg_id templateConfig) of
                     (Some m, Some tm) \<Rightarrow>
                       Some (sharedPartConfig\<lparr>cfg_used_in := Some (used_in
                         [i := usedInTemplateConfig\<lparr>ue_id :=
                                 Some (assign env (fmlookup tm env) m)\<rparr>])\<rparr>)
                   | _ \<Rightarrow> None)
              | Partner \<Rightarrow>
                  (case (ue_partnerId usedInTemplateConfig, cfg_partnerId templateConfig) of
                     (Some m, Some tm) \<Rightarrow>
                       Some (sharedPartConfig\<lparr>cfg_used_in := Some (used_in
                         [i := usedInTemplateConfig\<lparr>ue_partnerId :=
                                 Some (assign env (fmlookup tm env) m)\<rparr>])\<rparr>)
                   | _ \<Rightarrow> None)))"

text \<open>What \<^verbatim>\<open>addSharedPart\<close> returns: \<^verbatim>\<open>false\<close>, or the shared part's updated config.\<close>

datatype attach_result = AttachFalse | AttachConfig config

text \<open>
  The body of the \<^verbatim>\<open>try\<close> of \<^verbatim>\<open>addSharedPart(type, envId, sharedPartName, templateHandle,
  templateType)\<close>, in source order: the partner/export-file guard; both config reads and
  both ids; discovery of the template id, then of the shared part id; the \<^verbatim>\<open>switch\<close> that
  picks the gateway operation (none for a shared part, so that calling it throws); the
  gateway call and the test of its response; the bookkeeping and the two writes.
\<close>

definition addSharedPart_try ::
  "collab \<Rightarrow> scope \<Rightarrow> env_id \<Rightarrow> string \<Rightarrow> string \<Rightarrow> template_type \<Rightarrow> world
     \<Rightarrow> attach_result outcome \<times> world"
where
  "addSharedPart_try d sc env sharedPartName templateHandle templateType w0 =
     (if sc = Partner \<and> templateType = ExportFile then (Returned AttachFalse, w0)
      else
        let (templateConfig0, w1) = readConfig templateType templateHandle w0;
            (sharedPartConfig0, w2) = readConfig SharedPart sharedPartName w1;
            templateId0 = scopedId sc env templateConfig0;
            sharedPartId0 = scopedId sc env sharedPartConfig0
        in case discoverIfMissing d sc env templateType templateHandle
                  templateConfig0 templateId0 w2 of
             (Threw, w3) \<Rightarrow> (Threw, w3)
           | (Exited, w3) \<Rightarrow> (Exited, w3)
           | (Returned None, w3) \<Rightarrow> (Returned AttachFalse, w3)
           | (Returned (Some (templateConfig, templateId)), w3) \<Rightarrow>
               (case discoverIfMissing d sc env SharedPart sharedPartName
                       sharedPartConfig0 sharedPartId0 w3 of
                  (Threw, w4) \<Rightarrow> (Threw, w4)
                | (Exited, w4) \<Rightarrow> (Exited, w4)
                | (Returned None, w4) \<Rightarrow> (Returned AttachFalse, w4)
                | (Returned (Some (sharedPartConfig, sharedPartId)), w4) \<Rightarrow>
                    if templateType = SharedPart then (Threw, w4)
                    else
                      (let w5 = emit (Gateway (Attach sc env templateType
                                        sharedPartId templateId)) w4
                       in case SF_addSharedPart d sc env templateType sharedPartId templateId of
                            Rejects \<Rightarrow> (Threw, w5)
                          | Resolves response \<Rightarrow>
                              if attach_failed response then (Returned AttachFalse, w5)
                              else
                                (case storeUsedIn sc env templateConfig templateHandle
                                        templateType sharedPartConfig of
                                   None \<Rightarrow> (Threw, w5)
                                 | Some sharedPartConfig' \<Rightarrow>
                                     (Returned (AttachConfig sharedPartConfig'),
                                      writeConfig SharedPart sharedPartName sharedPartConfig'
                                        (writeConfig templateType templateHandle
                                           templateConfig w5))))))"

definition addSharedPart ::
  "collab \<Rightarrow> scope \<Rightarrow> env_id \<Rightarrow> string \<Rightarrow> string \<Rightarrow> template_type \<Rightarrow> world
     \<Rightarrow> attach_result outcome \<times> world"
where
  "addSharedPart d sc env sharedPartName templateHandle templateType w =
     catching d AttachFalse
       (addSharedPart_try d sc env sharedPartName templateHandle templateType w)"

section \<open>Detach\<close>

text \<open>\<^verbatim>\<open>xs.splice(i, 1)\<close>\<close>

definition splice1 :: "nat \<Rightarrow> 'a list \<Rightarrow> 'a list" where
  "splice1 i xs = take i xs @ drop (Suc i) xs"

text \<open>
  The pruning of the entry found at \<^verbatim>\<open>templateIndex\<close>: \<^verbatim>\<open>totalIds\<close> counts the keys of
  both maps (a missing map makes \<^verbatim>\<open>Object.keys\<close> throw: \<open>None\<close>), \<^verbatim>\<open>targetId\<close> is the
  entry's id under \<^verbatim>\<open>envId\<close> in the map of the active scope. Nothing changes unless
  \<^verbatim>\<open>targetId\<close> is truthy; then the entry is spliced out when
  \<^verbatim>\<open>totalIds <= 1 && templateId.toString() === targetId.toString()\<close>, and otherwise loses
  the key \<^verbatim>\<open>envId\<close> in the map of the active scope.
\<close>

definition pruneUsedIn ::
  "scope \<Rightarrow> env_id \<Rightarrow> remote_id option \<Rightarrow> nat \<Rightarrow> usage_entry list \<Rightarrow> usage_entry list option"
where
  "pruneUsedIn sc env templateId templateIndex used_in =
     (let usedInTemplateConfig = used_in ! templateIndex in
      case (ue_id usedInTemplateConfig, ue_partnerId usedInTemplateConfig) of
        (Some m, Some p) \<Rightarrow>
          (let totalIds = fcard (fmdom m) + fcard (fmdom p);
               targetId = (case sc of Firm \<Rightarrow> fmlookup m env | Partner \<Rightarrow> fmlookup p env)
           in Some (if truthy targetId then
                      (if totalIds \<le> 1 \<and> templateId = targetId
                       then splice1 templateIndex used_in
                       else used_in[templateIndex :=
                              (case sc of
                                 Firm \<Rightarrow> usedInTemplateConfig\<lparr>ue_id := Some (fmdrop env m)\<rparr>
                               | Partner \<Rightarrow>
                                   usedInTemplateConfig\<lparr>ue_partnerId := Some (fmdrop env p)\<rparr>)])
                    else used_in))
      | _ \<Rightarrow> None)"

text \<open>
  The body of the \<^verbatim>\<open>try\<close> of \<^verbatim>\<open>removeSharedPart(type, envId, sharedPartHandle,
  templateHandle, templateType)\<close>. It returns \<^verbatim>\<open>false\<close> (\<open>Some False\<close>) when an id is
  missing and \<^verbatim>\<open>undefined\<close> (\<open>None\<close>) at its end. The response of the gateway is used
  for one thing: a status of 200 prints a debug message. The search of \<^verbatim>\<open>used_in\<close> and
  the pruning follow whatever the response was; \<^verbatim>\<open>used_in.findIndex\<close> throws when the
  shared part's config has no \<^verbatim>\<open>used_in\<close>.
\<close>

definition removeSharedPart_try ::
  "collab \<Rightarrow> scope \<Rightarrow> env_id \<Rightarrow> string \<Rightarrow> string \<Rightarrow> template_type \<Rightarrow> world
     \<Rightarrow> bool option outcome \<times> world"
where
  "removeSharedPart_try d sc env sharedPartHandle templateHandle templateType w0 =
     (let (templateConfig, w1) = readConfig templateType templateHandle w0;
          (sharedPartConfig, w2) = readConfig SharedPart sharedPartHandle w1;
          templateId = scopedId sc env templateConfig
      in if \<not> truthy templateId then (Returned (Some False), w2)
         else
           let sharedPartId = scopedId sc env sharedPartConfig
           in if \<not> truthy sharedPartId then (Returned (Some False), w2)
              else if templateType = SharedPart then (Threw, w2)
              else
                (let w3 = emit (Gateway (Detach sc env templateType sharedPartId templateId)) w2
                 in case SF_removeSharedPart d sc env templateType sharedPartId templateId of
                      Rejects \<Rightarrow> (Threw, w3)
                    | Resolves response \<Rightarrow>
                        (let w4 = (case response of
                                     None \<Rightarrow> w3
                                   | Some r \<Rightarrow> if status r = Some 200
                                               then emit RemovedOnPlatform w3 else w3)
                         in case cfg_used_in sharedPartConfig of
                              None \<Rightarrow> (Threw, w4)
                            | Some used_in \<Rightarrow>
                                (case findIndex (matches templateHandle) used_in of
                                   None \<Rightarrow> (Returned None, w4)
                                 | Some templateIndex \<Rightarrow>
                                     (case pruneUsedIn sc env templateId templateIndex used_in of
                                        None \<Rightarrow> (Threw, w4)
                                      | Some used_in' \<Rightarrow>
                                          (Returned None,
                                           writeConfig SharedPart sharedPartHandle
                                             (sharedPartConfig\<lparr>cfg_used_in := Some used_in'\<rparr>)
                                             w4))))))"

definition removeSharedPart ::
  "collab \<Rightarrow> scope \<Rightarrow> env_id \<Rightarrow> string \<Rightarrow> string \<Rightarrow> template_type \<Rightarrow> world
     \<Rightarrow> bool option outcome \<times> world"
where
  "removeSharedPart d sc env sharedPartHandle templateHandle templateType w =
     catching d None
       (removeSharedPart_try d sc env sharedPartHandle templateHandle templateType w)"

section \<open>Publish\<close>

text \<open>
  The four publish operations are one text up to the kind, the gateway operation and the
  field of \<^verbatim>\<open>response.data\<close> they test: \<^verbatim>\<open>handle\<close> for a reconciliation, \<^verbatim>\<open>name\<close> for a
  shared part and an export file, \<^verbatim>\<open>name_nl\<close> for an account template.
\<close>

fun echo_field :: "template_type \<Rightarrow> remote \<Rightarrow> string option" where
  "echo_field ReconciliationText r = r_handle r"
| "echo_field SharedPart r = r_name r"
| "echo_field ExportFile r = r_name r"
| "echo_field AccountTemplate r = r_name_nl r"

text \<open>\<^verbatim>\<open>response && response.data && response.data.handle\<close> (or \<^verbatim>\<open>.name\<close>, \<^verbatim>\<open>.name_nl\<close>)\<close>

definition echoed :: "template_type \<Rightarrow> response option \<Rightarrow> bool" where
  "echoed tt response =
     (case response of
        None \<Rightarrow> False
      | Some r \<Rightarrow> (case data r of None \<Rightarrow> False | Some dt \<Rightarrow> truthy_str (echo_field tt dt)))"

text \<open>
  \<^verbatim>\<open>template.version_comment = message;
  if (type == "partner") { template.version_significant_change = false; }\<close>
\<close>

definition stamp :: "scope \<Rightarrow> string \<Rightarrow> body \<Rightarrow> body" where
  "stamp sc message template =
     (let template1 = template\<lparr>version_comment := Some message\<rparr>
      in if sc = Partner then template1\<lparr>version_significant_change := Some False\<rparr>
         else template1)"

text \<open>
  The body of the \<^verbatim>\<open>try\<close>: the config must exist and hold a truthy id for the scope and
  environment, else the missing-id helper is called and \<^verbatim>\<open>false\<close> returned; a missing body
  returns \<^verbatim>\<open>undefined\<close>; the body is stamped and sent; the result is \<^verbatim>\<open>true\<close> exactly when
  the response carries the tested field.
\<close>

definition publish_try ::
  "collab \<Rightarrow> template_type \<Rightarrow> scope \<Rightarrow> env_id \<Rightarrow> string \<Rightarrow> string \<Rightarrow> world
     \<Rightarrow> bool option outcome \<times> world"
where
  "publish_try d tt sc env handle message w0 =
     (let (configPresent, w1) = configExists tt handle w0
      in if \<not> configPresent then missingId d tt handle (Some False) w1
         else
           let (templateConfig, w2) = readConfig tt handle w1;
               templateId = scopedId sc env templateConfig
           in if \<not> truthy templateId then missingId d tt handle (Some False) w2
              else
                (let w3 = emit (ReadBody tt handle) w2
                 in case read_body d tt handle of
                      None \<Rightarrow> (Returned None, w3)
                    | Some template0 \<Rightarrow>
                        (let template = stamp sc message template0;
                             w4 = emit (Gateway (Update sc env tt templateId template)) w3
                         in case SF_update d sc env tt templateId template of
                              Rejects \<Rightarrow> (Threw, w4)
                            | Resolves response \<Rightarrow> (Returned (Some (echoed tt response)), w4))))"

definition publishReconciliationByHandle ::
  "collab \<Rightarrow> scope \<Rightarrow> env_id \<Rightarrow> string \<Rightarrow> string \<Rightarrow> world \<Rightarrow> bool option outcome \<times> world"
where
  "publishReconciliationByHandle d sc env handle message w =
     catching d None (publish_try d ReconciliationText sc env handle message w)"

definition publishSharedPartByName ::
  "collab \<Rightarrow> scope \<Rightarrow> env_id \<Rightarrow> string \<Rightarrow> string \<Rightarrow> world \<Rightarrow> bool option outcome \<times> world"
where
  "publishSharedPartByName d sc env name message w =
     catching d None (publish_try d SharedPart sc env name message w)"

definition publishExportFileByName ::
  "collab \<Rightarrow> scope \<Rightarrow> env_id \<Rightarrow> string \<Rightarrow> string \<Rightarrow> world \<Rightarrow> bool option outcome \<times> world"
where
  "publishExportFileByName d sc env name message w =
     catching d None (publish_try d ExportFile sc env name message w)"

definition publishAccountTemplateByName ::
  "collab \<Rightarrow> scope \<Rightarrow> env_id \<Rightarrow> string \<Rightarrow> string \<Rightarrow> world \<Rightarrow> bool option outcome \<times> world"
where
  "publishAccountTemplateByName d sc env name message w =
     catching d None (publish_try d AccountTemplate sc env name message w)"

text \<open>The publish operation of a kind.\<close>

fun publish ::
  "template_type \<Rightarrow> collab \<Rightarrow> scope \<Rightarrow> env_id \<Rightarrow> string \<Rightarrow> string \<Rightarrow> world
     \<Rightarrow> bool option outcome \<times> world"
where
  "publish ReconciliationText = publishReconciliationByHandle"
| "publish SharedPart = publishSharedPartByName"
| "publish ExportFile = publishExportFileByName"
| "publish AccountTemplate = publishAccountTemplateByName"

section \<open>Bulk import\<close>

text \<open>
  The importers are asynchronous. A call of \<^verbatim>\<open>fetchAllX(type, envId, page)\<close> sends the
  request for the page and suspends at its \<^verbatim>\<open>await\<close>; when the reply arrives, the rest of
  the body runs to its end without interruption: it starts the work on every record of the
  page (\<^verbatim>\<open>forEach\<close> with an \<^verbatim>\<open>async\<close> callback, which nobody awaits) and calls itself on
  the next page, which sends the next request. The importers of shared parts and export
  files start a read by id for every record, which suspends in turn, so that several
  replies can be pending at once, and the order in which they arrive is not the program's
  to decide. The state of an import is therefore the world together with the page whose
  reply is pending, the pending continuations of the records, what the promise of the
  first call has settled to, and whether \<^verbatim>\<open>process.exit\<close> was called. One step is the
  arrival of one reply; a run is a list of choices of which reply arrives next.
\<close>

datatype task = ById template_type remote_id | RejectedSave

datatype choice = Page | Task nat

record importing =
  im_world :: world
  im_page :: "nat option"
  im_tasks :: "task list"
  im_call :: "unit outcome option"
  im_exited :: bool

definition im_emit :: "event \<Rightarrow> importing \<Rightarrow> importing" where
  "im_emit e st = st\<lparr>im_world := emit e (im_world st)\<rparr>"

text \<open>\<^verbatim>\<open>process.exit(1)\<close>\<close>

definition exit_process :: "importing \<Rightarrow> importing" where
  "exit_process st = st\<lparr>im_exited := True\<rparr>"

text \<open>
  A promise rejects with nobody awaiting it. The code that is running goes on to its end;
  whether anything runs afterwards is the host's choice.
\<close>

definition unhandled :: "collab \<Rightarrow> importing \<Rightarrow> importing" where
  "unhandled d st =
     (let st1 = im_emit UnhandledRejection st
      in if unhandledRejection_exits d then exit_process st1 else st1)"

text \<open>The call \<^verbatim>\<open>fetchAllX(type, envId, page)\<close> up to its \<^verbatim>\<open>await\<close>: the request is sent.\<close>

definition request_page :: "template_type \<Rightarrow> scope \<Rightarrow> env_id \<Rightarrow> nat \<Rightarrow> importing \<Rightarrow> importing" where
  "request_page tt sc env page st =
     (im_emit (Gateway (ReadPage sc env tt page)) st)\<lparr>im_page := Some page\<rparr>"

text \<open>
  The call \<^verbatim>\<open>fetchSharedPartById(type, envId, id)\<close> or \<^verbatim>\<open>fetchExportFileById(type, envId, id)\<close>
  up to its \<^verbatim>\<open>await\<close>: the request is sent and the continuation waits for the reply.
\<close>

definition start_byId :: "template_type \<Rightarrow> scope \<Rightarrow> env_id \<Rightarrow> remote_id \<Rightarrow> importing \<Rightarrow> importing" where
  "start_byId tt sc env i st =
     (im_emit (Gateway (ReadById sc env tt i)) st)\<lparr>im_tasks := im_tasks st @ [ById tt i]\<rparr>"

text \<open>
  The end of one activation of an importer whose recursive call is neither awaited nor
  returned (\<^verbatim>\<open>fetchAllX(type, envId, page + 1);\<close> as a statement): the first call's promise
  settles when the body for page 1 ends; a later activation that returns leaves no mark,
  and one that throws is an unhandled rejection.
\<close>

definition returns_detached :: "nat \<Rightarrow> importing \<Rightarrow> importing" where
  "returns_detached page st = (if page = 1 then st\<lparr>im_call := Some (Returned ())\<rparr> else st)"

definition throws_detached :: "collab \<Rightarrow> nat \<Rightarrow> importing \<Rightarrow> importing" where
  "throws_detached d page st =
     (if page = 1 then st\<lparr>im_call := Some Threw\<rparr> else unhandled d st)"

text \<open>
  \<^verbatim>\<open>fetchAllReconciliations\<close>, from the arrival of the page on: an empty page ends the
  import, with the message when it is page 1; otherwise \<^verbatim>\<open>ReconciliationText.save\<close> is
  called on every record, in order (inside \<^verbatim>\<open>try\<close>, so that a failing save is only
  printed), and the next page is requested.
\<close>

definition fetchAllReconciliations ::
  "collab \<Rightarrow> scope \<Rightarrow> env_id \<Rightarrow> nat \<Rightarrow> importing \<Rightarrow> importing"
where
  "fetchAllReconciliations d sc env page st0 =
     (let st = st0\<lparr>im_page := None\<rparr>
      in case SF_readReconciliationTexts d sc env page of
           Rejects \<Rightarrow> throws_detached d page st
         | Resolves None \<Rightarrow> throws_detached d page st
         | Resolves (Some templates) \<Rightarrow>
             if length templates = 0
             then returns_detached page
                    (if page = 1 then im_emit (NothingFound ReconciliationText) st else st)
             else returns_detached page
                    (request_page ReconciliationText sc env (page + 1)
                       (foldl (\<lambda>st template. im_emit (Save ReconciliationText sc env template) st)
                          st templates)))"

text \<open>
  \<^verbatim>\<open>fetchAllExportFiles\<close>: the message for an empty page 1 is built from
  \<^verbatim>\<open>firmId\<close>, a name that is declared nowhere, so that the body throws instead of
  printing it; for every record of a page \<^verbatim>\<open>fetchExportFileById\<close> is called.
\<close>

definition fetchAllExportFiles ::
  "collab \<Rightarrow> scope \<Rightarrow> env_id \<Rightarrow> nat \<Rightarrow> importing \<Rightarrow> importing"
where
  "fetchAllExportFiles d sc env page st0 =
     (let st = st0\<lparr>im_page := None\<rparr>
      in case SF_readExportFiles d sc env page of
           Rejects \<Rightarrow> throws_detached d page st
         | Resolves None \<Rightarrow> throws_detached d page st
         | Resolves (Some templates) \<Rightarrow>
             if length templates = 0
             then (if page = 1 then throws_detached d page st else returns_detached page st)
             else returns_detached page
                    (request_page ExportFile sc env (page + 1)
                       (foldl (\<lambda>st template. start_byId ExportFile sc env (r_id template) st)
                          st templates)))"

text \<open>
  \<^verbatim>\<open>fetchAllAccountTemplates\<close>: the callback of a record evaluates
  \<^verbatim>\<open>AccountTemplate.save(firmId, template)\<close>, where \<^verbatim>\<open>firmId\<close> is declared nowhere: it
  throws before the save is called, and the promise of the callback rejects unawaited.
\<close>

definition fetchAllAccountTemplates ::
  "collab \<Rightarrow> scope \<Rightarrow> env_id \<Rightarrow> nat \<Rightarrow> importing \<Rightarrow> importing"
where
  "fetchAllAccountTemplates d sc env page st0 =
     (let st = st0\<lparr>im_page := None\<rparr>
      in case SF_readAccountTemplates d sc env page of
           Rejects \<Rightarrow> throws_detached d page st
         | Resolves None \<Rightarrow> throws_detached d page st
         | Resolves (Some templates) \<Rightarrow>
             if length templates = 0
             then returns_detached page
                    (if page = 1 then im_emit (NothingFound AccountTemplate) st else st)
             else returns_detached page
                    (request_page AccountTemplate sc env (page + 1)
                       (foldl (\<lambda>st template. unhandled d st) st templates)))"

text \<open>
  \<^verbatim>\<open>fetchAllSharedParts\<close> awaits its recursive call: the promise of the first call settles
  when the chain of pages ends, and a page that throws makes it reject. For every record
  of a page \<^verbatim>\<open>fetchSharedPartById\<close> is called on its id.
\<close>

definition fetchAllSharedParts ::
  "collab \<Rightarrow> scope \<Rightarrow> env_id \<Rightarrow> nat \<Rightarrow> importing \<Rightarrow> importing"
where
  "fetchAllSharedParts d sc env page st0 =
     (let st = st0\<lparr>im_page := None\<rparr>
      in case SF_readSharedParts d sc env page of
           Rejects \<Rightarrow> st\<lparr>im_call := Some Threw\<rparr>
         | Resolves None \<Rightarrow> st\<lparr>im_call := Some Threw\<rparr>
         | Resolves (Some sharedParts) \<Rightarrow>
             if length sharedParts = 0
             then (if page = 1 then im_emit (NothingFound SharedPart) st else st)
                    \<lparr>im_call := Some (Returned ())\<rparr>
             else request_page SharedPart sc env (page + 1)
                    (foldl (\<lambda>st sharedPart. start_byId SharedPart sc env (r_id sharedPart) st)
                       st sharedParts))"

text \<open>
  \<^verbatim>\<open>fetchSharedPartById\<close>, from the arrival of the reply on: a missing reply or a reply
  without \<^verbatim>\<open>data\<close> ends the process, and so does anything thrown (the \<^verbatim>\<open>catch\<close> calls
  \<^verbatim>\<open>process.exit(1)\<close>); otherwise \<^verbatim>\<open>SharedPart.save\<close> is called on \<^verbatim>\<open>template.data\<close> and
  awaited, so that a save that rejects ends the process when its continuation runs.
\<close>

definition fetchSharedPartById ::
  "collab \<Rightarrow> scope \<Rightarrow> env_id \<Rightarrow> remote_id \<Rightarrow> importing \<Rightarrow> importing"
where
  "fetchSharedPartById d sc env sharedPartId st =
     (case SF_readSharedPartById d sc env sharedPartId of
        Rejects \<Rightarrow> exit_process st
      | Resolves None \<Rightarrow> exit_process st
      | Resolves (Some template) \<Rightarrow>
          (case data template of
             None \<Rightarrow> exit_process st
           | Some dt \<Rightarrow>
               (let st1 = im_emit (Save SharedPart sc env dt) st
                in case save_template d SharedPart sc env dt of
                     Saved \<Rightarrow> st1
                   | SaveThrows \<Rightarrow> exit_process st1
                   | SaveRejects \<Rightarrow> st1\<lparr>im_tasks := im_tasks st1 @ [RejectedSave]\<rparr>)))"

text \<open>
  \<^verbatim>\<open>fetchExportFileById\<close>: the same, on the template itself; \<^verbatim>\<open>ExportFile.save\<close> is not
  awaited, so that only a save that throws at once reaches the \<^verbatim>\<open>catch\<close>.
\<close>

definition fetchExportFileById ::
  "collab \<Rightarrow> scope \<Rightarrow> env_id \<Rightarrow> remote_id \<Rightarrow> importing \<Rightarrow> importing"
where
  "fetchExportFileById d sc env i st =
     (case SF_readExportFileById d sc env i of
        Rejects \<Rightarrow> exit_process st
      | Resolves None \<Rightarrow> exit_process st
      | Resolves (Some template) \<Rightarrow>
          (let st1 = im_emit (Save ExportFile sc env template) st
           in case save_template d ExportFile sc env template of
                Saved \<Rightarrow> st1
              | SaveThrows \<Rightarrow> exit_process st1
              | SaveRejects \<Rightarrow> unhandled d st1))"

text \<open>The importer of a kind, and the continuation a pending task stands for.\<close>

fun fetchAll ::
  "template_type \<Rightarrow> collab \<Rightarrow> scope \<Rightarrow> env_id \<Rightarrow> nat \<Rightarrow> importing \<Rightarrow> importing"
where
  "fetchAll ReconciliationText = fetchAllReconciliations"
| "fetchAll ExportFile = fetchAllExportFiles"
| "fetchAll AccountTemplate = fetchAllAccountTemplates"
| "fetchAll SharedPart = fetchAllSharedParts"

fun resume :: "collab \<Rightarrow> scope \<Rightarrow> env_id \<Rightarrow> task \<Rightarrow> importing \<Rightarrow> importing" where
  "resume d sc env (ById SharedPart i) st = fetchSharedPartById d sc env i st"
| "resume d sc env (ById ExportFile i) st = fetchExportFileById d sc env i st"
| "resume d sc env (ById ReconciliationText i) st = st"
| "resume d sc env (ById AccountTemplate i) st = st"
| "resume d sc env RejectedSave st = exit_process st"

text \<open>
  One step: the reply chosen arrives and its continuation runs. Nothing runs after
  \<^verbatim>\<open>process.exit\<close>, and a choice of a reply that is not pending changes nothing.
\<close>

definition importStep ::
  "collab \<Rightarrow> template_type \<Rightarrow> scope \<Rightarrow> env_id \<Rightarrow> importing \<Rightarrow> choice \<Rightarrow> importing"
where
  "importStep d tt sc env st c =
     (if im_exited st then st
      else case c of
             Page \<Rightarrow> (case im_page st of
                        None \<Rightarrow> st
                      | Some page \<Rightarrow> fetchAll tt d sc env page st)
           | Task k \<Rightarrow>
               if k < length (im_tasks st)
               then resume d sc env (im_tasks st ! k)
                      (st\<lparr>im_tasks := take k (im_tasks st) @ drop (Suc k) (im_tasks st)\<rparr>)
               else st)"

text \<open>The call \<^verbatim>\<open>fetchAllX(type, envId)\<close> in a world, and the run of a list of choices.\<close>

definition import_start :: "template_type \<Rightarrow> scope \<Rightarrow> env_id \<Rightarrow> world \<Rightarrow> importing" where
  "import_start tt sc env w =
     request_page tt sc env 1
       \<lparr>im_world = w, im_page = None, im_tasks = [], im_call = None, im_exited = False\<rparr>"

definition run_import ::
  "collab \<Rightarrow> template_type \<Rightarrow> scope \<Rightarrow> env_id \<Rightarrow> choice list \<Rightarrow> world \<Rightarrow> importing"
where
  "run_import d tt sc env cs w = foldl (importStep d tt sc env) (import_start tt sc env w) cs"

text \<open>An import is over when the process has exited or no reply is pending.\<close>

definition finished :: "importing \<Rightarrow> bool" where
  "finished st = (im_exited st \<or> (im_page st = None \<and> im_tasks st = []))"

text \<open>A choice is enabled when the reply it names is pending.\<close>

fun enabled :: "importing \<Rightarrow> choice \<Rightarrow> bool" where
  "enabled st Page = (\<not> im_exited st \<and> im_page st \<noteq> None)"
| "enabled st (Task k) = (\<not> im_exited st \<and> k < length (im_tasks st))"

section \<open>Create\<close>

text \<open>
  \<^verbatim>\<open>newAccountTemplate(firmId, name)\<close>: an existing template or a missing body ends the
  call; otherwise the body is created on the platform, and the next statement is
  \<^verbatim>\<open>const handle = response.data.name_nl\<close>, before
  \<^verbatim>\<open>if (response && response.status == 201)\<close>. Reading \<^verbatim>\<open>data\<close> of a missing response, or
  \<^verbatim>\<open>name_nl\<close> of a missing \<^verbatim>\<open>data\<close>, throws.
\<close>

definition newAccountTemplate_try ::
  "collab \<Rightarrow> env_id \<Rightarrow> string \<Rightarrow> world \<Rightarrow> unit outcome \<times> world"
where
  "newAccountTemplate_try d firmId name w0 =
     (let w1 = emit (Gateway (Find Firm firmId AccountTemplate name)) w0
      in case SF_find d Firm firmId AccountTemplate name of
           Rejects \<Rightarrow> (Threw, w1)
         | Resolves (Some existingTemplate) \<Rightarrow> (Returned (), w1)
         | Resolves None \<Rightarrow>
             (let w2 = emit (ReadBody AccountTemplate name) w1
              in case read_body d AccountTemplate name of
                   None \<Rightarrow> (Returned (), w2)
                 | Some template0 \<Rightarrow>
                     (let template = template0\<lparr>version_comment :=
                                       Some ''Created through the Silverfin CLI''\<rparr>;
                          w3 = emit (Gateway (Create firmId AccountTemplate template)) w2
                      in case SF_createAccountTemplate d firmId template of
                           Rejects \<Rightarrow> (Threw, w3)
                         | Resolves None \<Rightarrow> (Threw, w3)
                         | Resolves (Some response) \<Rightarrow>
                             (case data response of
                                None \<Rightarrow> (Threw, w3)
                              | Some dt \<Rightarrow>
                                  (let handle = r_name_nl dt
                                   in if status response = Some 201
                                      then (Returned (),
                                            emit (UpdateTemplateId AccountTemplate firmId
                                                    handle (r_id dt)) w3)
                                      else (Returned (), w3))))))"

definition newAccountTemplate :: "collab \<Rightarrow> env_id \<Rightarrow> string \<Rightarrow> world \<Rightarrow> unit outcome \<times> world" where
  "newAccountTemplate d firmId name w = catching d () (newAccountTemplate_try d firmId name w)"

section \<open>The first revision\<close>

text \<open>
  The first revision of \<^verbatim>\<open>index.js\<close> knows firms only: its gateway operations take
  \<^verbatim>\<open>firmId\<close> where those of the second take \<^verbatim>\<open>(type, envId)\<close>, and are modelled by the
  collaborator's operations at firm scope.
\<close>

text \<open>
  \<^verbatim>\<open>getTemplateId(firmId, type, handle)\<close> of the first revision: the \<^verbatim>\<open>switch\<close> knows
  reconciliations and shared parts only, so that any other kind is looked up nowhere and
  reported as not found; a template found has its id stored under \<^verbatim>\<open>firmId\<close> in \<^verbatim>\<open>id\<close>.
\<close>

definition getTemplateId_v1 ::
  "collab \<Rightarrow> env_id \<Rightarrow> template_type \<Rightarrow> string \<Rightarrow> world \<Rightarrow> bool outcome \<times> world"
where
  "getTemplateId_v1 d firmId tt handle w0 =
     (case (if tt = ReconciliationText \<or> tt = SharedPart
            then (SF_find d Firm firmId tt handle, emit (Gateway (Find Firm firmId tt handle)) w0)
            else (Resolves None, w0)) of
        (Rejects, w1) \<Rightarrow> (Threw, w1)
      | (Resolves None, w1) \<Rightarrow> (Returned False, w1)
      | (Resolves (Some templateText), w1) \<Rightarrow>
          (let (config0, w2) = readConfig tt handle w1;
               config1 = (if cfg_id config0 = None
                          then config0\<lparr>cfg_id := Some fmempty\<rparr> else config0);
               config2 = config1\<lparr>cfg_id :=
                           map_option (fmupd firmId (r_id templateText)) (cfg_id config1)\<rparr>
           in (Returned True, writeConfig tt handle config2 w2)))"

text \<open>
  \<^verbatim>\<open>if (!config.id[firmId]) { ... }\<close>: the read of \<^verbatim>\<open>id[firmId]\<close> throws when the config
  has no \<^verbatim>\<open>id\<close> object; a falsy id starts the lookup, as in the second revision.
\<close>

definition discoverIfMissing_v1 ::
  "collab \<Rightarrow> env_id \<Rightarrow> template_type \<Rightarrow> string \<Rightarrow> config \<Rightarrow> world
     \<Rightarrow> config option outcome \<times> world"
where
  "discoverIfMissing_v1 d firmId tt h cfg w =
     (case cfg_id cfg of
        None \<Rightarrow> (Threw, w)
      | Some m \<Rightarrow>
          if truthy (fmlookup m firmId) then (Returned (Some cfg), w)
          else (case getTemplateId_v1 d firmId tt h w of
                  (Returned updated, w') \<Rightarrow>
                    if \<not> updated then (Returned None, w')
                    else (let (cfg', w'') = readConfig tt h w' in (Returned (Some cfg'), w''))
                | (Threw, w') \<Rightarrow> (Threw, w')
                | (Exited, w') \<Rightarrow> (Exited, w')))"

text \<open>
  The bookkeeping of the first revision: the entry is looked up by \<^verbatim>\<open>handle\<close> alone; a
  new entry is \<^verbatim>\<open>{ id: { [firmId]: id }, type: "reconciliation", handle }\<close>, without a
  \<^verbatim>\<open>partnerId\<close> map.
\<close>

definition storeUsedIn_v1 :: "env_id \<Rightarrow> idmap \<Rightarrow> string \<Rightarrow> config \<Rightarrow> config option" where
  "storeUsedIn_v1 firmId reconciliationIds reconciliationHandle configSharedPart =
     (let used_in = (case cfg_used_in configSharedPart of None \<Rightarrow> [] | Some us \<Rightarrow> us);
          reconciliationIndex =
            (case cfg_used_in configSharedPart of
               None \<Rightarrow> None
             | Some us \<Rightarrow> findIndex (\<lambda>reconciliationText.
                                       ue_handle reconciliationText = Some reconciliationHandle) us)
      in case reconciliationIndex of
           None \<Rightarrow>
             Some (configSharedPart\<lparr>cfg_used_in := Some (used_in @
               [\<lparr>ue_id = Some (assign firmId (fmlookup reconciliationIds firmId) fmempty),
                 ue_partnerId = None,
                 ue_type = ''reconciliation'',
                 ue_handle = Some reconciliationHandle,
                 ue_name = None\<rparr>])\<rparr>)
         | Some i \<Rightarrow>
             (case ue_id (used_in ! i) of
                None \<Rightarrow> None
              | Some m \<Rightarrow>
                  Some (configSharedPart\<lparr>cfg_used_in := Some (used_in
                    [i := (used_in ! i)\<lparr>ue_id :=
                            Some (assign firmId (fmlookup reconciliationIds firmId) m)\<rparr>])\<rparr>)))"

text \<open>
  \<^verbatim>\<open>addSharedPartToReconciliation(firmId, sharedPartHandle, reconciliationHandle)\<close>: the same
  steps as \<^verbatim>\<open>addSharedPart\<close> without the guard and the \<^verbatim>\<open>switch\<close>, with the same test of
  the response; the shared part's config is written first. It returns \<^verbatim>\<open>true\<close> or
  \<^verbatim>\<open>false\<close>.
\<close>

definition addSharedPartToReconciliation_try ::
  "collab \<Rightarrow> env_id \<Rightarrow> string \<Rightarrow> string \<Rightarrow> world \<Rightarrow> bool outcome \<times> world"
where
  "addSharedPartToReconciliation_try d firmId sharedPartHandle reconciliationHandle w0 =
     (let (configReconciliation0, w1) = readConfig ReconciliationText reconciliationHandle w0;
          (configSharedPart0, w2) = readConfig SharedPart sharedPartHandle w1
      in case discoverIfMissing_v1 d firmId ReconciliationText reconciliationHandle
                configReconciliation0 w2 of
           (Threw, w3) \<Rightarrow> (Threw, w3)
         | (Exited, w3) \<Rightarrow> (Exited, w3)
         | (Returned None, w3) \<Rightarrow> (Returned False, w3)
         | (Returned (Some configReconciliation), w3) \<Rightarrow>
             (case discoverIfMissing_v1 d firmId SharedPart sharedPartHandle
                     configSharedPart0 w3 of
                (Threw, w4) \<Rightarrow> (Threw, w4)
              | (Exited, w4) \<Rightarrow> (Exited, w4)
              | (Returned None, w4) \<Rightarrow> (Returned False, w4)
              | (Returned (Some configSharedPart), w4) \<Rightarrow>
                  (case (cfg_id configSharedPart, cfg_id configReconciliation) of
                     (Some sharedPartIds, Some reconciliationIds) \<Rightarrow>
                       (let w5 = emit (Gateway (Attach Firm firmId ReconciliationText
                                         (fmlookup sharedPartIds firmId)
                                         (fmlookup reconciliationIds firmId))) w4
                        in case SF_addSharedPart d Firm firmId ReconciliationText
                                  (fmlookup sharedPartIds firmId)
                                  (fmlookup reconciliationIds firmId) of
                             Rejects \<Rightarrow> (Threw, w5)
                           | Resolves response \<Rightarrow>
                               if attach_failed response then (Returned False, w5)
                               else
                                 (case storeUsedIn_v1 firmId reconciliationIds
                                         reconciliationHandle configSharedPart of
                                    None \<Rightarrow> (Threw, w5)
                                  | Some configSharedPart' \<Rightarrow>
                                      (Returned True,
                                       writeConfig ReconciliationText reconciliationHandle
                                         configReconciliation
                                         (writeConfig SharedPart sharedPartHandle
                                            configSharedPart' w5))))
                   | _ \<Rightarrow> (Threw, w4))))"

definition addSharedPartToReconciliation ::
  "collab \<Rightarrow> env_id \<Rightarrow> string \<Rightarrow> string \<Rightarrow> world \<Rightarrow> bool outcome \<times> world"
where
  "addSharedPartToReconciliation d firmId sharedPartHandle reconciliationHandle w =
     catching d False
       (addSharedPartToReconciliation_try d firmId sharedPartHandle reconciliationHandle w)"

section \<open>Example inputs\<close>

text \<open>A config with no fields, a repository without config files, and a platform that
  finds nothing and answers nothing.\<close>

definition empty_config :: config where
  "empty_config = \<lparr>cfg_id = None, cfg_partnerId = None, cfg_used_in = None\<rparr>"

definition empty_world :: world where
  "empty_world = \<lparr>configs = (\<lambda>_. empty_config), present = (\<lambda>_. False), trace = []\<rparr>"

definition silent :: collab where
  "silent = \<lparr>SF_find = (\<lambda>_ _ _ _. Resolves None),
     SF_readReconciliationTexts = (\<lambda>_ _ _. Resolves (Some [])),
     SF_readExportFiles = (\<lambda>_ _ _. Resolves (Some [])),
     SF_readAccountTemplates = (\<lambda>_ _ _. Resolves (Some [])),
     SF_readSharedParts = (\<lambda>_ _ _. Resolves (Some [])),
     SF_readSharedPartById = (\<lambda>_ _ _. Resolves None),
     SF_readExportFileById = (\<lambda>_ _ _. Resolves None),
     save_template = (\<lambda>_ _ _ _. Saved),
     SF_update = (\<lambda>_ _ _ _ _. Resolves None),
     SF_createAccountTemplate = (\<lambda>_ _. Resolves None),
     SF_addSharedPart = (\<lambda>_ _ _ _ _. Resolves None),
     SF_removeSharedPart = (\<lambda>_ _ _ _ _. Resolves None),
     read_body = (\<lambda>_ _. None),
     missingId_exits = False,
     errorHandler_exits = False,
     unhandledRejection_exits = False\<rparr>"

definition remote_of :: "remote_id \<Rightarrow> remote" where
  "remote_of i = \<lparr>r_id = i, r_handle = None, r_name = None, r_name_nl = None\<rparr>"

text \<open>
  The scenario of the specification: reconciliation \<^verbatim>\<open>recon_y\<close> has id 42 in firm 111,
  shared part \<^verbatim>\<open>sp_x\<close> has id 7 there, and \<^verbatim>\<open>sp_x\<close> carries a given \<^verbatim>\<open>used_in\<close> list.
\<close>

definition recon_y_config :: config where
  "recon_y_config = \<lparr>cfg_id = Some (fmupd 111 42 fmempty), cfg_partnerId = Some fmempty,
                      cfg_used_in = None\<rparr>"

definition sp_x_config :: "usage_entry list \<Rightarrow> config" where
  "sp_x_config us = \<lparr>cfg_id = Some (fmupd 111 7 fmempty), cfg_partnerId = Some fmempty,
                      cfg_used_in = Some us\<rparr>"

definition repo :: "usage_entry list \<Rightarrow> world" where
  "repo us = \<lparr>configs = (\<lambda>_. empty_config)
                 ((ReconciliationText, ''recon_y'') := recon_y_config,
                  (SharedPart, ''sp_x'') := sp_x_config us),
              present = (\<lambda>k. k = (ReconciliationText, ''recon_y'') \<or> k = (SharedPart, ''sp_x'')),
              trace = []\<rparr>"

definition usage :: "string \<Rightarrow> string \<Rightarrow> idmap \<Rightarrow> idmap \<Rightarrow> usage_entry" where
  "usage ty h m p = \<lparr>ue_id = Some m, ue_partnerId = Some p, ue_type = ty,
                      ue_handle = Some h, ue_name = None\<rparr>"

definition status_only :: "nat \<Rightarrow> response" where
  "status_only n = \<lparr>status = Some n, data = None\<rparr>"

definition body0 :: body where
  "body0 = \<lparr>text_parts = ''{% comment %}'', version_comment = None,
            version_significant_change = None\<rparr>"

text \<open>A platform whose update answers 200 and echoes the handle of another template.\<close>

definition echoes_another :: collab where
  "echoes_another = silent\<lparr>read_body := \<lambda>_ _. Some body0,
     SF_update := \<lambda>_ _ _ _ _. Resolves (Some \<lparr>status = Some 200,
       data = Some \<lparr>r_id = 99, r_handle = Some ''another_handle'', r_name = None,
                     r_name_nl = None\<rparr>\<rparr>)\<rparr>"

text \<open>A platform that answers every attach and every detach with the given status.\<close>

definition answers :: "nat \<Rightarrow> collab" where
  "answers n = silent\<lparr>SF_addSharedPart := \<lambda>_ _ _ _ _. Resolves (Some (status_only n)),
                       SF_removeSharedPart := \<lambda>_ _ _ _ _. Resolves (Some (status_only n))\<rparr>"

text \<open>A platform whose create answers 201 without a \<^verbatim>\<open>data\<close> object.\<close>

definition creates_without_data :: collab where
  "creates_without_data = silent\<lparr>read_body := \<lambda>_ _. Some body0,
     SF_createAccountTemplate := \<lambda>_ _. Resolves (Some (status_only 201))\<rparr>"

section \<open>The specification's criteria\<close>

text \<open>
  The success criterion of publish in the specification's words: the response echoes the
  identifying field of the artifact being published.
\<close>

definition spec_echo_matches :: "template_type \<Rightarrow> string \<Rightarrow> response option \<Rightarrow> bool" where
  "spec_echo_matches tt handle response =
     (case response of
        None \<Rightarrow> False
      | Some r \<Rightarrow> (case data r of None \<Rightarrow> False | Some dt \<Rightarrow> echo_field tt dt = Some handle))"



text \<open>
  The records saved and the page numbers read in a trace, and the trace without its
  saves.
\<close>

fun saved_records :: "event list \<Rightarrow> remote list" where
  "saved_records [] = []"
| "saved_records (Save tt sc env t # es) = t # saved_records es"
| "saved_records (e # es) = saved_records es"




text \<open>
  What a read by id leads to saving (\<^verbatim>\<open>template.data\<close> for a shared part, the template
  for an export file), and the records for which both the read and the save succeed.
\<close>

fun fetched :: "collab \<Rightarrow> template_type \<Rightarrow> scope \<Rightarrow> env_id \<Rightarrow> remote_id \<Rightarrow> remote option" where
  "fetched d SharedPart sc env i =
     (case SF_readSharedPartById d sc env i of
        Resolves (Some template) \<Rightarrow> data template
      | _ \<Rightarrow> None)"
| "fetched d ExportFile sc env i =
     (case SF_readExportFileById d sc env i of
        Resolves (Some template) \<Rightarrow> Some template
      | _ \<Rightarrow> None)"
| "fetched d tt sc env i = None"




definition nothing_found :: "template_type \<Rightarrow> remote list list \<Rightarrow> event list" where
  "nothing_found tt pages = (if pages = [] \<and> tt \<noteq> ExportFile then [NothingFound tt] else [])"







text \<open>
  The pages of the specification's example: \<open>[A, B]\<close>, \<open>[C]\<close>, \<open>[]\<close>, on a platform where
  every read by id finds the record; and the same pages on a platform where the read by id
  of the first record finds nothing.
\<close>

definition three_records :: collab where
  "three_records = silent\<lparr>
     SF_readReconciliationTexts := \<lambda>_ _ n. Resolves (Some
       (if n = 1 then [remote_of 1, remote_of 2] else if n = 2 then [remote_of 3] else [])),
     SF_readExportFiles := \<lambda>_ _ n. Resolves (Some
       (if n = 1 then [remote_of 1, remote_of 2] else if n = 2 then [remote_of 3] else [])),
     SF_readAccountTemplates := \<lambda>_ _ n. Resolves (Some
       (if n = 1 then [remote_of 1, remote_of 2] else if n = 2 then [remote_of 3] else [])),
     SF_readSharedParts := \<lambda>_ _ n. Resolves (Some
       (if n = 1 then [remote_of 1, remote_of 2] else if n = 2 then [remote_of 3] else [])),
     SF_readSharedPartById := \<lambda>_ _ i. Resolves (Some \<lparr>status = Some 200,
                                                       data = Some (remote_of i)\<rparr>),
     SF_readExportFileById := \<lambda>_ _ i. Resolves (Some (remote_of i))\<rparr>"


text \<open>
  The \<^verbatim>\<open>used_in\<close> list of a config, a missing one read as empty; the pair the
  specification keys a usage entry by; and the id an entry holds for a scope and an
  environment.
\<close>

definition used_list :: "config \<Rightarrow> usage_entry list" where
  "used_list c = (case cfg_used_in c of None \<Rightarrow> [] | Some us \<Rightarrow> us)"



section \<open>The states of an import over a page sequence\<close>

text \<open>
  A state that has not exited, given by what the import has added to the trace, the
  pending page, the pending continuations and what the first call has settled to.
\<close>

definition im_state ::
  "world \<Rightarrow> event list \<Rightarrow> nat option \<Rightarrow> task list \<Rightarrow> unit outcome option \<Rightarrow> importing"
where
  "im_state w evs pg tasks cl =
     \<lparr>im_world = w\<lparr>trace := trace w @ evs\<rparr>, im_page = pg, im_tasks = tasks, im_call = cl,
      im_exited = False\<rparr>"




section \<open>Results\<close>

lemmas example_defs = recon_y_config_def sp_x_config_def repo_def usage_def status_only_def
  silent_def empty_config_def empty_world_def remote_of_def body0_def answers_def
  echoes_another_def creates_without_data_def

lemmas operation_defs = addSharedPart_def addSharedPart_try_def discoverIfMissing_def
  getTemplateId_def readConfig_def writeConfig_def configExists_def emit_def catching_def
  errorHandler_def missingId_def scopedId_def attach_failed_def strict_eq_bool_num_def
  storeUsedIn_def matches_def assign_def removeSharedPart_def removeSharedPart_try_def
  pruneUsedIn_def splice1_def

subsection \<open>Effects of the primitives\<close>

lemma trace_emit: "trace (emit e w) = trace w @ [e]"
  by (simp add: emit_def)

lemma configs_emit: "configs (emit e w) = configs w"
  by (simp add: emit_def)

lemma present_emit: "present (emit e w) = present w"
  by (simp add: emit_def)

lemma trace_writeConfig: "trace (writeConfig tt h c w) = trace w @ [WriteConfig tt h c]"
  by (simp add: writeConfig_def emit_def)


lemma catching_trace:
  "\<exists>evs. trace (snd (catching d v r)) = trace (snd r) @ evs"
  by (cases r; cases "fst r") (auto simp: catching_def errorHandler_def emit_def)


lemma getTemplateId_trace:
  "\<exists>evs. trace (snd (getTemplateId d sc env tt h w)) = trace w @ evs"
  by (cases sc; cases "SF_find d sc env tt h")
     (auto simp: getTemplateId_def readConfig_def writeConfig_def emit_def Let_def
           split: option.splits)

lemma discoverIfMissing_trace:
  "\<exists>evs. trace (snd (discoverIfMissing d sc env tt h c i w)) = trace w @ evs"
proof -
  obtain evs where e: "trace (snd (getTemplateId d sc env tt h w)) = trace w @ evs"
    using getTemplateId_trace by blast
  show ?thesis
    using e
    by (cases "getTemplateId d sc env tt h w")
       (auto simp: discoverIfMissing_def readConfig_def emit_def split: outcome.splits)
qed

subsection \<open>Identity resolution\<close>

text \<open>
  C4. When the remote lookup of \<^verbatim>\<open>getTemplateId\<close> does not find a template, the call does
  not return \<^verbatim>\<open>true\<close> (it returns \<^verbatim>\<open>false\<close> when the lookup returns nothing) and it
  neither reads nor writes a config: its only effect is the lookup itself. When the lookup
  finds a template, the call returns \<^verbatim>\<open>true\<close> and reads and writes exactly this
  template's config: the discovered id is stored under \<^verbatim>\<open>envId\<close> in the \<^verbatim>\<open>id\<close> map for
  firm scope and in the \<^verbatim>\<open>partnerId\<close> map for partner scope, the other keys of that map,
  the map of the other scope, \<^verbatim>\<open>used_in\<close> and every other template's config being kept.
\<close>

theorem getTemplateId_writes_only_on_discovery:
  "((\<forall>t. SF_find d sc env tt h \<noteq> Resolves (Some t)) \<longrightarrow>
      fst (getTemplateId d sc env tt h w) \<noteq> Returned True \<and>
      snd (getTemplateId d sc env tt h w) = emit (Gateway (Find sc env tt h)) w)
   \<and> (SF_find d sc env tt h = Resolves None \<longrightarrow>
      fst (getTemplateId d sc env tt h w) = Returned False)
   \<and> (SF_find d sc env tt h = Resolves (Some t) \<longrightarrow>
      fst (getTemplateId d sc env tt h w) = Returned True \<and>
      (\<forall>k. k \<noteq> (tt, h) \<longrightarrow> configs (snd (getTemplateId d sc env tt h w)) k = configs w k) \<and>
      (let c = configs w (tt, h); c' = configs (snd (getTemplateId d sc env tt h w)) (tt, h) in
         cfg_used_in c' = cfg_used_in c \<and>
         (case sc of
            Firm \<Rightarrow> cfg_id c' = Some (fmupd env (r_id t) (id_map c)) \<and>
                     cfg_partnerId c' = Some (partnerId_map c)
          | Partner \<Rightarrow> cfg_partnerId c' = Some (fmupd env (r_id t) (partnerId_map c)) \<and>
                     cfg_id c' = Some (id_map c)) \<and>
         trace (snd (getTemplateId d sc env tt h w)) =
           trace w @ [Gateway (Find sc env tt h), ReadConfig tt h, WriteConfig tt h c']))"
  by (cases sc; cases "SF_find d sc env tt h")
     (auto simp: getTemplateId_def readConfig_def writeConfig_def emit_def Let_def
                 id_map_def partnerId_map_def split: option.splits)

theorem getTemplateId_writes_only_on_discovery_witness:
  "getTemplateId silent Firm 111 SharedPart ''sp_x'' empty_world =
     (Returned False, emit (Gateway (Find Firm 111 SharedPart ''sp_x'')) empty_world)
   \<and> fst (getTemplateId (silent\<lparr>SF_find := \<lambda>_ _ _ _. Resolves (Some (remote_of 7))\<rparr>)
            Partner 111 SharedPart ''sp_x'' empty_world) = Returned True
   \<and> cfg_partnerId (configs (snd (getTemplateId
            (silent\<lparr>SF_find := \<lambda>_ _ _ _. Resolves (Some (remote_of 7))\<rparr>)
            Partner 111 SharedPart ''sp_x'' empty_world)) (SharedPart, ''sp_x''))
       = Some (fmupd 111 7 fmempty)"
  using getTemplateId_writes_only_on_discovery
          [where d = silent and sc = Firm and env = 111 and tt = SharedPart
             and h = "''sp_x''" and w = empty_world]
        getTemplateId_writes_only_on_discovery
          [where d = "silent\<lparr>SF_find := \<lambda>_ _ _ _. Resolves (Some (remote_of 7))\<rparr>"
             and sc = Partner and env = 111 and tt = SharedPart and h = "''sp_x''"
             and t = "remote_of 7" and w = empty_world]
  by (simp add: silent_def remote_of_def empty_world_def empty_config_def partnerId_map_def
        Let_def prod_eq_iff)

subsection \<open>The partner guard of attach\<close>

lemma addSharedPart_try_reads_first:
  assumes "\<not> (sc = Partner \<and> tt = ExportFile)"
  shows "\<exists>evs. trace (snd (addSharedPart_try d sc env sp th tt w)) =
           trace w @ ReadConfig tt th # ReadConfig SharedPart sp # evs"
proof -
  let ?w2 = "emit (ReadConfig SharedPart sp) (emit (ReadConfig tt th) w)"
  let ?c0 = "configs w (tt, th)"
  let ?s0 = "configs w (SharedPart, sp)"
  obtain r3 w3 where d1: "discoverIfMissing d sc env tt th ?c0 (scopedId sc env ?c0) ?w2 = (r3, w3)"
    by (cases "discoverIfMissing d sc env tt th ?c0 (scopedId sc env ?c0) ?w2")
  obtain e3 where t3: "trace w3 = trace w @ ReadConfig tt th # ReadConfig SharedPart sp # e3"
    using discoverIfMissing_trace[of d sc env tt th ?c0 "scopedId sc env ?c0" ?w2] d1
    by (auto simp: trace_emit)
  obtain r4 w4
    where d2: "discoverIfMissing d sc env SharedPart sp ?s0 (scopedId sc env ?s0) w3 = (r4, w4)"
    by (cases "discoverIfMissing d sc env SharedPart sp ?s0 (scopedId sc env ?s0) w3")
  obtain e4 where t4: "trace w4 = trace w @ ReadConfig tt th # ReadConfig SharedPart sp # e4"
    using discoverIfMissing_trace[of d sc env SharedPart sp ?s0 "scopedId sc env ?s0" w3] d2 t3
    by auto
  show ?thesis
    using assms d1 d2 t3 t4
    by (auto simp: addSharedPart_try_def readConfig_def Let_def configs_emit trace_emit
          trace_writeConfig
          split: outcome.splits option.splits reply.splits prod.splits)
qed

text \<open>
  C9. An attach under partner scope to an export file returns \<^verbatim>\<open>false\<close> and leaves the
  world exactly as it was: no gateway call, no config read, no config write. Under firm
  scope an attach to an export file passes the guard: it goes on to read both configs.
\<close>

theorem addSharedPart_partner_exportFile_guard:
  "addSharedPart d Partner env sharedPartName templateHandle ExportFile w
     = (Returned AttachFalse, w)
   \<and> (\<exists>evs. trace (snd (addSharedPart d Firm env sharedPartName templateHandle ExportFile w)) =
          trace w @ ReadConfig ExportFile templateHandle
                  # ReadConfig SharedPart sharedPartName # evs)"
proof
  show "addSharedPart d Partner env sharedPartName templateHandle ExportFile w
          = (Returned AttachFalse, w)"
    by (simp add: addSharedPart_def addSharedPart_try_def catching_def)
next
  obtain evs
    where a: "trace (snd (addSharedPart_try d Firm env sharedPartName templateHandle ExportFile w))
                = trace w @ ReadConfig ExportFile templateHandle
                          # ReadConfig SharedPart sharedPartName # evs"
    using addSharedPart_try_reads_first[of Firm ExportFile d env sharedPartName templateHandle w]
    by auto
  obtain evs'
    where b: "trace (snd (addSharedPart d Firm env sharedPartName templateHandle ExportFile w)) =
      trace (snd (addSharedPart_try d Firm env sharedPartName templateHandle ExportFile w)) @ evs'"
    unfolding addSharedPart_def
    using catching_trace[of d AttachFalse
            "addSharedPart_try d Firm env sharedPartName templateHandle ExportFile w"]
    by auto
  show "\<exists>evs. trace (snd (addSharedPart d Firm env sharedPartName templateHandle ExportFile w)) =
          trace w @ ReadConfig ExportFile templateHandle
                  # ReadConfig SharedPart sharedPartName # evs"
    using a b by simp
qed

theorem addSharedPart_partner_exportFile_guard_witness:
  "addSharedPart (answers 201) Partner 5 ''sp_x'' ''export_z'' ExportFile (repo [])
     = (Returned AttachFalse, repo [])
   \<and> (\<exists>evs. trace (snd (addSharedPart (answers 201) Firm 5 ''sp_x'' ''export_z'' ExportFile
                          (repo []))) =
          ReadConfig ExportFile ''export_z'' # ReadConfig SharedPart ''sp_x'' # evs)"
  using addSharedPart_partner_exportFile_guard
          [of "answers 201" 5 "''sp_x''" "''export_z''" "repo []"]
  by (simp add: repo_def)

subsection \<open>Publish\<close>

lemma publish_unfold:
  "publish tt d sc env h message w = catching d None (publish_try d tt sc env h message w)"
  by (cases tt)
     (simp_all add: publishReconciliationByHandle_def publishSharedPartByName_def
        publishExportFileByName_def publishAccountTemplateByName_def)

lemma publish_try_missing:
  assumes "\<not> present w (tt, h) \<or> \<not> truthy (scopedId sc env (configs w (tt, h)))"
  shows "publish_try d tt sc env h message w =
           (if missingId_exits d then Exited else Returned (Some False),
            w\<lparr>trace := trace w @
                 (if present w (tt, h) then [ConfigExists tt h, ReadConfig tt h, MissingId tt h]
                  else [ConfigExists tt h, MissingId tt h])\<rparr>)"
  using assms
  by (auto simp: publish_try_def configExists_def readConfig_def missingId_def emit_def Let_def)

text \<open>
  C6. When the config of the template does not exist, or holds no truthy id for the scope
  and environment (\<^verbatim>\<open>id\<close> map for firm, \<^verbatim>\<open>partnerId\<close> map for partner), each of the four
  publish operations calls the missing-id helper and returns \<^verbatim>\<open>false\<close> (or the helper ends
  the process). Its only effects are the existence test, the config read when the file
  exists, and the missing-id error: no gateway call of any kind, so neither an update nor a
  lookup, and no config write.
\<close>

theorem publish_without_id_fails_fast:
  assumes "\<not> present w (tt, h) \<or> \<not> truthy (scopedId sc env (configs w (tt, h)))"
  shows "publish tt d sc env h message w =
           (if missingId_exits d then Exited else Returned (Some False),
            w\<lparr>trace := trace w @
                 (if present w (tt, h) then [ConfigExists tt h, ReadConfig tt h, MissingId tt h]
                  else [ConfigExists tt h, MissingId tt h])\<rparr>)"
  unfolding publish_unfold publish_try_missing[OF assms]
  by (simp add: catching_def)

theorem publish_without_id_fails_fast_witness:
  "publishReconciliationByHandle echoes_another Firm 111 ''recon_z'' ''message'' (repo [])
     = (Returned (Some False),
        (repo [])\<lparr>trace := [ConfigExists ReconciliationText ''recon_z'',
                            MissingId ReconciliationText ''recon_z'']\<rparr>)
   \<and> publishSharedPartByName echoes_another Partner 111 ''sp_x'' ''message'' (repo [])
     = (Returned (Some False),
        (repo [])\<lparr>trace := [ConfigExists SharedPart ''sp_x'', ReadConfig SharedPart ''sp_x'',
                            MissingId SharedPart ''sp_x'']\<rparr>)"
  using publish_without_id_fails_fast
          [of "repo []" ReconciliationText "''recon_z''" Firm 111 echoes_another "''message''"]
        publish_without_id_fails_fast
          [of "repo []" SharedPart "''sp_x''" Partner 111 echoes_another "''message''"]
  by (simp add: example_defs scopedId_def)

text \<open>
  C8, as the code has it. A publish call that reaches the gateway update (the config exists,
  holds a truthy id, and the body can be read) returns \<^verbatim>\<open>true\<close> exactly when the update
  resolves to a response with a \<^verbatim>\<open>data\<close> object whose identifying field (\<^verbatim>\<open>handle\<close> for a
  reconciliation, \<^verbatim>\<open>name\<close> for a shared part and an export file, \<^verbatim>\<open>name_nl\<close> for an
  account template) is a non-empty string. The field is not compared with the handle or
  name being published, and the status is not looked at.
\<close>

theorem publish_success_iff_field_present:
  assumes "present w (tt, h)"
    and "truthy (scopedId sc env (configs w (tt, h)))"
    and "read_body d tt h = Some b"
  shows "fst (publish tt d sc env h message w) = Returned (Some True) \<longleftrightarrow>
           (\<exists>r dt s. SF_update d sc env tt (scopedId sc env (configs w (tt, h)))
                        (stamp sc message b) = Resolves (Some r)
                      \<and> data r = Some dt \<and> echo_field tt dt = Some s \<and> s \<noteq> [])"
  using assms
  unfolding publish_unfold
  by (cases "SF_update d sc env tt (scopedId sc env (configs w (tt, h))) (stamp sc message b)")
     (auto simp: publish_try_def configExists_def readConfig_def emit_def Let_def
        catching_def errorHandler_def echoed_def
        split: option.splits elim: truthy_str.elims)

theorem publish_success_iff_field_present_witness:
  "fst (publishReconciliationByHandle echoes_another Firm 111 ''recon_y'' ''message'' (repo []))
     = Returned (Some True)
   \<and> fst (publishReconciliationByHandle silent Firm 111 ''recon_y'' ''message'' (repo []))
     \<noteq> Returned (Some True)"
  using publish_success_iff_field_present
          [of "repo []" ReconciliationText "''recon_y''" Firm 111 echoes_another body0
              "''message''"]
        publish_success_iff_field_present
          [of "repo []" ReconciliationText "''recon_y''" Firm 111
              "silent\<lparr>read_body := \<lambda>_ _. Some body0\<rparr>" body0 "''message''"]
  by (simp add: example_defs scopedId_def publish_try_def publishReconciliationByHandle_def
        configExists_def readConfig_def emit_def missingId_def catching_def)

text \<open>
  C8 as stated fails: publishing \<^verbatim>\<open>recon_y\<close> against a platform that answers with the handle
  of another template returns \<^verbatim>\<open>true\<close>, although the response does not echo \<^verbatim>\<open>recon_y\<close>.
\<close>

theorem publish_accepts_another_handle:
  "fst (publishReconciliationByHandle echoes_another Firm 111 ''recon_y'' ''message'' (repo []))
     = Returned (Some True)
   \<and> SF_update echoes_another Firm 111 ReconciliationText (Some 42) (stamp Firm ''message'' body0)
     = Resolves (Some \<lparr>status = Some 200,
         data = Some \<lparr>r_id = 99, r_handle = Some ''another_handle'', r_name = None,
                       r_name_nl = None\<rparr>\<rparr>)
   \<and> \<not> spec_echo_matches ReconciliationText ''recon_y''
         (Some \<lparr>status = Some 200,
            data = Some \<lparr>r_id = 99, r_handle = Some ''another_handle'', r_name = None,
                          r_name_nl = None\<rparr>\<rparr>)"
  by (simp add: example_defs scopedId_def publish_try_def publishReconciliationByHandle_def
        configExists_def readConfig_def emit_def catching_def echoed_def stamp_def
        spec_echo_matches_def)

subsection \<open>Create of an account template\<close>

lemma newAccountTemplate_try_throws:
  assumes "SF_find d Firm firmId AccountTemplate name = Resolves None"
    and "read_body d AccountTemplate name = Some b"
    and "SF_createAccountTemplate d firmId
           (b\<lparr>version_comment := Some ''Created through the Silverfin CLI''\<rparr>) = Resolves resp"
    and "resp = None \<or> (\<exists>r. resp = Some r \<and> data r = None)"
  shows "newAccountTemplate_try d firmId name w =
           (Threw, w\<lparr>trace := trace w @
              [Gateway (Find Firm firmId AccountTemplate name), ReadBody AccountTemplate name,
               Gateway (Create firmId AccountTemplate
                 (b\<lparr>version_comment := Some ''Created through the Silverfin CLI''\<rparr>))]\<rparr>)"
  using assms
  by (auto simp: newAccountTemplate_try_def emit_def Let_def)

text \<open>
  C10. In \<^verbatim>\<open>newAccountTemplate\<close>, when the create call is reached (no existing template, a
  body on disk) and resolves to no response or to a response without \<^verbatim>\<open>data\<close>, whatever
  its status, the body of the \<^verbatim>\<open>try\<close> throws at \<^verbatim>\<open>response.data.name_nl\<close>: the error handler
  is called right after the create call, the status guard is never evaluated and no id is
  stored.
\<close>

theorem newAccountTemplate_throws_before_guard:
  assumes "SF_find d Firm firmId AccountTemplate name = Resolves None"
    and "read_body d AccountTemplate name = Some b"
    and "SF_createAccountTemplate d firmId
           (b\<lparr>version_comment := Some ''Created through the Silverfin CLI''\<rparr>) = Resolves resp"
    and "resp = None \<or> (\<exists>r. resp = Some r \<and> data r = None)"
  shows "fst (newAccountTemplate_try d firmId name w) = Threw
    \<and> newAccountTemplate d firmId name w =
           (if errorHandler_exits d then Exited else Returned (),
            w\<lparr>trace := trace w @
              [Gateway (Find Firm firmId AccountTemplate name), ReadBody AccountTemplate name,
               Gateway (Create firmId AccountTemplate
                 (b\<lparr>version_comment := Some ''Created through the Silverfin CLI''\<rparr>)),
               ErrorHandler]\<rparr>)"
  unfolding newAccountTemplate_def newAccountTemplate_try_throws[OF assms]
  by (simp add: catching_def errorHandler_def emit_def)

theorem newAccountTemplate_throws_before_guard_witness:
  "status (status_only 201) = Some 201
   \<and> fst (newAccountTemplate_try creates_without_data 111 ''Assets'' empty_world) = Threw
   \<and> trace (snd (newAccountTemplate creates_without_data 111 ''Assets'' empty_world)) =
       [Gateway (Find Firm 111 AccountTemplate ''Assets''), ReadBody AccountTemplate ''Assets'',
        Gateway (Create 111 AccountTemplate
          (body0\<lparr>version_comment := Some ''Created through the Silverfin CLI''\<rparr>)),
        ErrorHandler]"
  using newAccountTemplate_throws_before_guard
          [of creates_without_data 111 "''Assets''" body0 "Some (status_only 201)" empty_world]
  by (simp add: example_defs)

subsection \<open>The response tests of attach and detach\<close>

lemma attach_failed_iff: "attach_failed (Some r) \<longleftrightarrow> \<not> truthy (status r)"
  by (simp add: attach_failed_def strict_eq_bool_num_def)

text \<open>
  C3 at a failing input. Both ids are known locally and the gateway answers the attach with
  status 500. The test \<^verbatim>\<open>!response || !response.status || !response.status === 201\<close> lets
  the response through: \<^verbatim>\<open>addSharedPart\<close> returns the updated config of the shared part, a
  usage entry for \<^verbatim>\<open>recon_y\<close> is appended, and both configs are written.
\<close>

theorem addSharedPart_accepts_status_500:
  "fst (addSharedPart (answers 500) Firm 111 ''sp_x'' ''recon_y'' ReconciliationText (repo []))
     = Returned (AttachConfig (sp_x_config
         [usage ''reconciliationText'' ''recon_y'' (fmupd 111 42 fmempty) fmempty]))
   \<and> trace (snd (addSharedPart (answers 500) Firm 111 ''sp_x'' ''recon_y'' ReconciliationText
                   (repo [])))
     = [ReadConfig ReconciliationText ''recon_y'', ReadConfig SharedPart ''sp_x'',
        Gateway (Attach Firm 111 ReconciliationText (Some 7) (Some 42)),
        WriteConfig ReconciliationText ''recon_y'' recon_y_config,
        WriteConfig SharedPart ''sp_x'' (sp_x_config
          [usage ''reconciliationText'' ''recon_y'' (fmupd 111 42 fmempty) fmempty])]"
  by (simp add: example_defs operation_defs Let_def)

text \<open>
  C5 as stated fails: with \<^verbatim>\<open>sp_x\<close> attached to \<^verbatim>\<open>recon_y\<close> in firm 111 and a gateway that
  answers the detach with status 500, \<^verbatim>\<open>removeSharedPart\<close> still removes the usage entry
  from the config of the shared part.
\<close>

theorem removeSharedPart_status_500_prunes:
  "cfg_used_in (configs (repo [usage ''reconciliationText'' ''recon_y''
                                (fmupd 111 42 fmempty) fmempty]) (SharedPart, ''sp_x''))
     = Some [usage ''reconciliationText'' ''recon_y'' (fmupd 111 42 fmempty) fmempty]
   \<and> cfg_used_in (configs (snd (removeSharedPart (answers 500)
        Firm 111 ''sp_x'' ''recon_y'' ReconciliationText
        (repo [usage ''reconciliationText'' ''recon_y'' (fmupd 111 42 fmempty) fmempty])))
      (SharedPart, ''sp_x'')) = Some []"
  by (simp add: example_defs operation_defs Let_def fcard_finsert_if)

text \<open>
  Two runs of a detach that differ only in the response of the gateway return the same
  value and leave the same configs and the same set of config files; a rejected call
  leaves the configs alone.
\<close>

lemma removeSharedPart_same_for_any_reply:
  "fst (removeSharedPart (d\<lparr>SF_removeSharedPart := \<lambda>_ _ _ _ _. Resolves r\<rparr>) sc env sp th tt w)
     = fst (removeSharedPart (d\<lparr>SF_removeSharedPart := \<lambda>_ _ _ _ _. Resolves r'\<rparr>) sc env sp th tt w)
   \<and> configs (snd (removeSharedPart (d\<lparr>SF_removeSharedPart := \<lambda>_ _ _ _ _. Resolves r\<rparr>)
                     sc env sp th tt w))
     = configs (snd (removeSharedPart (d\<lparr>SF_removeSharedPart := \<lambda>_ _ _ _ _. Resolves r'\<rparr>)
                     sc env sp th tt w))
   \<and> present (snd (removeSharedPart (d\<lparr>SF_removeSharedPart := \<lambda>_ _ _ _ _. Resolves r\<rparr>)
                     sc env sp th tt w))
     = present (snd (removeSharedPart (d\<lparr>SF_removeSharedPart := \<lambda>_ _ _ _ _. Resolves r'\<rparr>)
                     sc env sp th tt w))
   \<and> configs (snd (removeSharedPart (d\<lparr>SF_removeSharedPart := \<lambda>_ _ _ _ _. Rejects\<rparr>)
                     sc env sp th tt w))
     = configs w"
  by (auto simp: removeSharedPart_def removeSharedPart_try_def readConfig_def writeConfig_def
        emit_def Let_def catching_def errorHandler_def
        split: option.splits)

text \<open>
  C5, as the code has it. A detach call that has both ids locally makes the gateway call
  after reading both configs. When the call resolves, whatever the response is (any status,
  or no response object), the bookkeeping follows: the usage entry is looked up by handle or
  name; if there is none the call returns, and if there is one it is pruned and the config
  of the shared part is written (a missing \<^verbatim>\<open>used_in\<close> list or a missing map of the entry
  throws into the error handler instead). The response decides one thing: a status of 200
  adds the debug message before the bookkeeping. When the call is rejected, the error
  handler is called right after it and nothing is written.
\<close>

theorem removeSharedPart_bookkeeping_ignores_response:
  assumes "truthy (scopedId sc env (configs w (tt, th)))"
    and "truthy (scopedId sc env (configs w (SharedPart, sp)))"
    and "tt \<noteq> SharedPart"
  shows "(\<forall>r. SF_removeSharedPart d sc env tt (scopedId sc env (configs w (SharedPart, sp)))
             (scopedId sc env (configs w (tt, th))) = Resolves r \<longrightarrow>
          removeSharedPart d sc env sp th tt w =
            (let w4 = w\<lparr>trace := trace w @
                        [ReadConfig tt th, ReadConfig SharedPart sp,
                         Gateway (Detach sc env tt (scopedId sc env (configs w (SharedPart, sp)))
                                    (scopedId sc env (configs w (tt, th))))] @
                        (case r of
                           None \<Rightarrow> []
                         | Some x \<Rightarrow> if status x = Some 200 then [RemovedOnPlatform] else [])\<rparr>
             in case cfg_used_in (configs w (SharedPart, sp)) of
                  None \<Rightarrow> errorHandler d None w4
                | Some us \<Rightarrow>
                    (case findIndex (matches th) us of
                       None \<Rightarrow> (Returned None, w4)
                     | Some i \<Rightarrow>
                         (case pruneUsedIn sc env (scopedId sc env (configs w (tt, th))) i us of
                            None \<Rightarrow> errorHandler d None w4
                          | Some us' \<Rightarrow>
                              (Returned None,
                               writeConfig SharedPart sp
                                 ((configs w (SharedPart, sp))\<lparr>cfg_used_in := Some us'\<rparr>) w4)))))
     \<and> (SF_removeSharedPart d sc env tt (scopedId sc env (configs w (SharedPart, sp)))
             (scopedId sc env (configs w (tt, th))) = Rejects \<longrightarrow>
          removeSharedPart d sc env sp th tt w =
            errorHandler d None
              (w\<lparr>trace := trace w @
                   [ReadConfig tt th, ReadConfig SharedPart sp,
                    Gateway (Detach sc env tt (scopedId sc env (configs w (SharedPart, sp)))
                               (scopedId sc env (configs w (tt, th))))]\<rparr>))"
  using assms
  by (auto simp: removeSharedPart_def removeSharedPart_try_def readConfig_def
        emit_def Let_def catching_def
        split: option.splits)

theorem removeSharedPart_bookkeeping_ignores_response_witness:
  "removeSharedPart (answers 500) Firm 111 ''sp_x'' ''recon_y'' ReconciliationText
       (repo [usage ''reconciliationText'' ''recon_y'' (fmupd 111 42 fmempty) fmempty])
     = (Returned None,
        writeConfig SharedPart ''sp_x'' (sp_x_config [])
          ((repo [usage ''reconciliationText'' ''recon_y'' (fmupd 111 42 fmempty) fmempty])
             \<lparr>trace := [ReadConfig ReconciliationText ''recon_y'', ReadConfig SharedPart ''sp_x'',
                        Gateway (Detach Firm 111 ReconciliationText (Some 7) (Some 42))]\<rparr>))
   \<and> removeSharedPart (answers 200) Firm 111 ''sp_x'' ''recon_y'' ReconciliationText
       (repo [usage ''reconciliationText'' ''recon_y'' (fmupd 111 42 fmempty) fmempty])
     = (Returned None,
        writeConfig SharedPart ''sp_x'' (sp_x_config [])
          ((repo [usage ''reconciliationText'' ''recon_y'' (fmupd 111 42 fmempty) fmempty])
             \<lparr>trace := [ReadConfig ReconciliationText ''recon_y'', ReadConfig SharedPart ''sp_x'',
                        Gateway (Detach Firm 111 ReconciliationText (Some 7) (Some 42)),
                        RemovedOnPlatform]\<rparr>))"
  using removeSharedPart_bookkeeping_ignores_response
          [where d = "answers 500" and sc = Firm and env = 111 and sp = "''sp_x''"
             and th = "''recon_y''" and tt = ReconciliationText
             and w = "repo [usage ''reconciliationText'' ''recon_y''
                              (fmupd 111 42 fmempty) fmempty]"]
        removeSharedPart_bookkeeping_ignores_response
          [where d = "answers 200" and sc = Firm and env = 111 and sp = "''sp_x''"
             and th = "''recon_y''" and tt = ReconciliationText
             and w = "repo [usage ''reconciliationText'' ''recon_y''
                              (fmupd 111 42 fmempty) fmempty]"]
  by (simp add: example_defs scopedId_def matches_def pruneUsedIn_def splice1_def
        fcard_finsert_if Let_def)

subsection \<open>Bulk import\<close>




lemma saved_records_append: "saved_records (xs @ ys) = saved_records xs @ saved_records ys"
  by (induction xs rule: saved_records.induct) simp_all



















lemma enabled_im_state:
  "enabled (im_state w evs pg tasks cl) Page = (pg \<noteq> None)"
  "enabled (im_state w evs pg tasks cl) (Task k) = (k < length tasks)"
  by (simp_all add: im_state_def)













lemma saved_records_own_events_recon:
  "saved_records (nothing_found tt pages) = []"
  by (simp add: nothing_found_def)












text \<open>
  In general, a read by id that fails or finds nothing ends the process, and nothing runs
  afterwards.
\<close>

lemma fetchSharedPartById_exits_when_not_found:
  "fetched d SharedPart sc env i = None \<Longrightarrow>
   fetchSharedPartById d sc env i st = exit_process st"
  by (auto simp: fetchSharedPartById_def split: reply.splits option.splits)

lemma fetchExportFileById_exits_when_not_found:
  "fetched d ExportFile sc env i = None \<Longrightarrow>
   fetchExportFileById d sc env i st = exit_process st"
  by (auto simp: fetchExportFileById_def split: reply.splits option.splits)

lemma importStep_after_exit: "im_exited st \<Longrightarrow> importStep d tt sc env st c = st"
  by (simp add: importStep_def)

text \<open>
  The importer of account templates never calls the save: the callback of every record
  throws on the undeclared \<^verbatim>\<open>firmId\<close> before \<^verbatim>\<open>AccountTemplate.save\<close> is called. Whatever
  the gateway serves and in whatever order, the saves in the trace are those that were
  there before; over the pages \<open>[A, B]\<close>, \<open>[C]\<close>, \<open>[]\<close> the three pages are read and three
  rejections are left unhandled.
\<close>

lemma unhandled_frame:
  "im_tasks (unhandled d st) = im_tasks st \<and>
   saved_records (trace (im_world (unhandled d st))) = saved_records (trace (im_world st))"
  by (simp add: unhandled_def exit_process_def im_emit_def emit_def Let_def saved_records_append)

lemma foldl_unhandled_frame:
  "im_tasks (foldl (\<lambda>st template. unhandled d st) st p) = im_tasks st \<and>
   saved_records (trace (im_world (foldl (\<lambda>st template. unhandled d st) st p))) =
     saved_records (trace (im_world st))"
  by (induction p arbitrary: st) (simp_all add: unhandled_frame)

lemma returns_detached_frame:
  "im_tasks (returns_detached page st) = im_tasks st"
  "im_world (returns_detached page st) = im_world st"
  by (simp_all add: returns_detached_def)

lemma throws_detached_frame:
  "im_tasks (throws_detached d page st) = im_tasks st"
  "saved_records (trace (im_world (throws_detached d page st))) =
     saved_records (trace (im_world st))"
  by (simp_all add: throws_detached_def unhandled_frame)

lemma request_page_frame:
  "im_tasks (request_page tt sc env page st) = im_tasks st"
  "saved_records (trace (im_world (request_page tt sc env page st))) =
     saved_records (trace (im_world st))"
  by (simp_all add: request_page_def im_emit_def emit_def saved_records_append)

lemma im_emit_NothingFound_frame:
  "im_tasks (im_emit (NothingFound tt) st) = im_tasks st"
  "saved_records (trace (im_world (im_emit (NothingFound tt) st))) =
     saved_records (trace (im_world st))"
  by (simp_all add: im_emit_def emit_def saved_records_append)

lemma fetchAllAccountTemplates_frame:
  "im_tasks (fetchAllAccountTemplates d sc env page st) = im_tasks st \<and>
   saved_records (trace (im_world (fetchAllAccountTemplates d sc env page st))) =
     saved_records (trace (im_world st))"
  unfolding fetchAllAccountTemplates_def Let_def
  by (simp add: returns_detached_frame throws_detached_frame request_page_frame
        im_emit_NothingFound_frame foldl_unhandled_frame split: reply.splits option.splits)

lemma importStep_AccountTemplate_frame:
  assumes "im_tasks st = []"
  shows "im_tasks (importStep d AccountTemplate sc env st c) = [] \<and>
         saved_records (trace (im_world (importStep d AccountTemplate sc env st c))) =
           saved_records (trace (im_world st))"
  using assms
  by (cases c) (simp_all add: importStep_def fetchAllAccountTemplates_frame split: option.splits)

lemma fetchAllAccountTemplates_saves_nothing:
  "im_tasks (run_import d AccountTemplate sc env cs w) = [] \<and>
   saved_records (trace (im_world (run_import d AccountTemplate sc env cs w))) =
     saved_records (trace w)"
proof (induction cs rule: rev_induct)
  case Nil
  show ?case
    by (simp add: run_import_def import_start_def request_page_def im_emit_def emit_def
          saved_records_append)
next
  case (snoc c cs)
  have run: "run_import d AccountTemplate sc env (cs @ [c]) w =
             importStep d AccountTemplate sc env (run_import d AccountTemplate sc env cs w) c"
    by (simp add: run_import_def)
  from snoc have "im_tasks (run_import d AccountTemplate sc env cs w) = []" by simp
  from importStep_AccountTemplate_frame[OF this, of d sc env c] snoc
  show ?case by (simp only: run)
qed

lemma fetchAllAccountTemplates_three_records:
  "trace (im_world (run_import three_records AccountTemplate Firm 111 [Page, Page, Page]
                      empty_world)) =
     [Gateway (ReadPage Firm 111 AccountTemplate 1), UnhandledRejection, UnhandledRejection,
      Gateway (ReadPage Firm 111 AccountTemplate 2), UnhandledRejection,
      Gateway (ReadPage Firm 111 AccountTemplate 3)]
   \<and> finished (run_import three_records AccountTemplate Firm 111 [Page, Page, Page]
                  empty_world)"
  by (simp add: three_records_def silent_def remote_of_def empty_world_def run_import_def
        import_start_def importStep_def request_page_def im_emit_def emit_def
        fetchAllAccountTemplates_def unhandled_def returns_detached_def finished_def)

subsection \<open>The threshold of detach\<close>

text \<open>
  C2 as stated fails. The usage entry of \<^verbatim>\<open>recon_y\<close> holds one key in total, under partner
  environment 5, and the id stored there, 42, equals the id of \<^verbatim>\<open>recon_y\<close> resolved for the
  detach in firm 111. The count is at most 1 and the one remaining id equals the resolved
  template id, yet the entry is not removed: \<^verbatim>\<open>targetId\<close> is read under \<^verbatim>\<open>envId\<close> in the map
  of the active scope, where the entry has nothing.
\<close>

theorem removeSharedPart_keeps_entry_of_other_scope:
  "fcard (fmdom (fmempty :: idmap)) + fcard (fmdom (fmupd 5 42 (fmempty :: idmap))) \<le> 1
   \<and> fmlookup (fmupd 5 42 (fmempty :: idmap)) 5
       = scopedId Firm 111 (configs (repo [usage ''reconciliationText'' ''recon_y''
                                            fmempty (fmupd 5 42 fmempty)])
                              (ReconciliationText, ''recon_y''))
   \<and> cfg_used_in (configs (snd (removeSharedPart (answers 200) Firm 111 ''sp_x'' ''recon_y''
        ReconciliationText
        (repo [usage ''reconciliationText'' ''recon_y'' fmempty (fmupd 5 42 fmempty)])))
      (SharedPart, ''sp_x''))
     = Some [usage ''reconciliationText'' ''recon_y'' fmempty (fmupd 5 42 fmempty)]"
  by (simp add: example_defs operation_defs Let_def fcard_finsert_if)

text \<open>
  C2, as the code has it. The detach call has both ids locally, reaches the gateway and gets
  a response, and the shared part has a \<^verbatim>\<open>used_in\<close> list. When no entry of the list has
  the template's handle as its handle or name, the configs are unchanged and nothing is
  written. Otherwise take the first such entry, with its two maps, and let \<^verbatim>\<open>targetId\<close> be
  its id under \<^verbatim>\<open>envId\<close> in the map of the active scope. If \<^verbatim>\<open>targetId\<close> is truthy, the
  two maps hold at most one key in total and \<^verbatim>\<open>targetId\<close> equals the resolved template id,
  the entry is removed and the other entries keep their order. If \<^verbatim>\<open>targetId\<close> is truthy and
  that test fails, only the key \<^verbatim>\<open>envId\<close> is deleted from the map of the active scope: the
  entry stays in place with its other map. If the entry has no truthy id under \<^verbatim>\<open>envId\<close>
  in that map, the list is written back as it was. No other config changes.
\<close>

theorem removeSharedPart_prunes_by_threshold:
  assumes "truthy (scopedId sc env (configs w (tt, th)))"
    and "truthy (scopedId sc env (configs w (SharedPart, sp)))"
    and "tt \<noteq> SharedPart"
    and "SF_removeSharedPart d sc env tt (scopedId sc env (configs w (SharedPart, sp)))
           (scopedId sc env (configs w (tt, th))) = Resolves r"
    and "cfg_used_in (configs w (SharedPart, sp)) = Some us"
  shows "(findIndex (matches th) us = None \<longrightarrow>
          fst (removeSharedPart d sc env sp th tt w) = Returned None \<and>
          configs (snd (removeSharedPart d sc env sp th tt w)) = configs w \<and>
          (\<forall>k h c. WriteConfig k h c \<in> set (trace (snd (removeSharedPart d sc env sp th tt w)))
                     \<longrightarrow> WriteConfig k h c \<in> set (trace w)))
     \<and> (\<forall>i m p. findIndex (matches th) us = Some i \<and> ue_id (us ! i) = Some m
                  \<and> ue_partnerId (us ! i) = Some p \<longrightarrow>
          fst (removeSharedPart d sc env sp th tt w) = Returned None \<and>
          (\<exists>us'. configs (snd (removeSharedPart d sc env sp th tt w)) =
                   (configs w)((SharedPart, sp) :=
                      (configs w (SharedPart, sp))\<lparr>cfg_used_in := Some us'\<rparr>) \<and>
             (let targetId = (case sc of Firm \<Rightarrow> fmlookup m env | Partner \<Rightarrow> fmlookup p env);
                  totalIds = fcard (fmdom m) + fcard (fmdom p);
                  templateId = scopedId sc env (configs w (tt, th))
              in (truthy targetId \<and> totalIds \<le> 1 \<and> templateId = targetId \<longrightarrow>
                    us' = take i us @ drop (Suc i) us) \<and>
                 (truthy targetId \<and> \<not> (totalIds \<le> 1 \<and> templateId = targetId) \<longrightarrow>
                    us' = us[i := (case sc of
                                     Firm \<Rightarrow> (us ! i)\<lparr>ue_id := Some (fmdrop env m)\<rparr>
                                   | Partner \<Rightarrow> (us ! i)\<lparr>ue_partnerId := Some (fmdrop env p)\<rparr>)]) \<and>
                 (\<not> truthy targetId \<longrightarrow> us' = us))))"
  using assms
  by (cases sc)
     (auto simp: removeSharedPart_def removeSharedPart_try_def readConfig_def writeConfig_def
        emit_def Let_def catching_def pruneUsedIn_def splice1_def
        split: option.splits)

theorem removeSharedPart_prunes_by_threshold_witness:
  "cfg_used_in (configs (snd (removeSharedPart (answers 200) Firm 111 ''sp_x'' ''recon_y''
        ReconciliationText
        (repo [usage ''reconciliationText'' ''recon_y'' (fmupd 111 42 fmempty) fmempty])))
      (SharedPart, ''sp_x'')) = Some []
   \<and> cfg_used_in (configs (snd (removeSharedPart (answers 200) Firm 111 ''sp_x'' ''recon_y''
        ReconciliationText
        (repo [usage ''reconciliationText'' ''recon_y''
                 (fmupd 222 43 (fmupd 111 42 fmempty)) fmempty])))
      (SharedPart, ''sp_x''))
     = Some [usage ''reconciliationText'' ''recon_y'' (fmupd 222 43 fmempty) fmempty]"
  using removeSharedPart_prunes_by_threshold
          [where d = "answers 200" and sc = Firm and env = 111 and sp = "''sp_x''"
             and th = "''recon_y''" and tt = ReconciliationText
             and r = "Some (status_only 200)"
             and us = "[usage ''reconciliationText'' ''recon_y'' (fmupd 111 42 fmempty) fmempty]"
             and w = "repo [usage ''reconciliationText'' ''recon_y''
                              (fmupd 111 42 fmempty) fmempty]"]
        removeSharedPart_prunes_by_threshold
          [where d = "answers 200" and sc = Firm and env = 111 and sp = "''sp_x''"
             and th = "''recon_y''" and tt = ReconciliationText
             and r = "Some (status_only 200)"
             and us = "[usage ''reconciliationText'' ''recon_y''
                          (fmupd 222 43 (fmupd 111 42 fmempty)) fmempty]"
             and w = "repo [usage ''reconciliationText'' ''recon_y''
                              (fmupd 222 43 (fmupd 111 42 fmempty)) fmempty]"]
  by (simp add: example_defs scopedId_def matches_def fcard_finsert_if fmdrop_fmupd Let_def)

subsection \<open>Usage entries under attach\<close>

lemma findIndex_Some:
  "findIndex P xs = Some i \<Longrightarrow> i < length xs \<and> P (xs ! i) \<and> (\<forall>j<i. \<not> P (xs ! j))"
proof (induction xs arbitrary: i)
  case Nil
  then show ?case by simp
next
  case (Cons x xs)
  show ?case
  proof (cases "P x")
    case True
    with Cons.prems show ?thesis by simp
  next
    case False
    with Cons.prems obtain k where k: "findIndex P xs = Some k" "i = Suc k"
      by auto
    from Cons.IH[OF k(1)] False k(2) show ?thesis
      by (auto simp: nth_Cons split: nat.splits)
  qed
qed

lemma findIndex_None: "findIndex P xs = None \<longleftrightarrow> (\<forall>x\<in>set xs. \<not> P x)"
  by (induction xs) auto




lemma length_filter_map: "length (filter P xs) = length (filter id (map P xs))"
  by (induction xs) simp_all

lemma length_filter_update:
  assumes "i < length xs" and "P y = P (xs ! i)"
  shows "length (filter P (xs[i := y])) = length (filter P xs)"
proof -
  have "map P (xs[i := y]) = map P xs"
    using assms by (simp add: map_update list_update_same_conv)
  then show ?thesis
    by (metis length_filter_map)
qed










lemma configs_readConfig: "configs (snd (readConfig tt h w)) = configs w"
  by (simp add: readConfig_def emit_def)




lemma cfg_storeUsedIn:
  assumes "storeUsedIn sc env tc th tt spc = Some c'"
  shows "cfg_id c' = cfg_id spc \<and> cfg_partnerId c' = cfg_partnerId spc"
  using assms
  by (cases sc)
     (auto simp: storeUsedIn_def Let_def split: option.splits)

lemma scopedId_storeUsedIn:
  assumes "storeUsedIn sc env tc th tt spc = Some c'"
  shows "scopedId sc' env' c' = scopedId sc' env' spc"
  using cfg_storeUsedIn[OF assms] by (cases sc') (simp_all add: scopedId_def)













subsection \<open>The first revision\<close>

text \<open>
  The first revision behaves alike in these respects: its lookup returns
  \<^verbatim>\<open>false\<close> without touching a config when nothing is found and stores the id under
  \<^verbatim>\<open>firmId\<close> otherwise, and its attach lets a response of status 500 through the same
  test, returning \<^verbatim>\<open>true\<close> and writing both configs.
\<close>

lemmas v1_defs = getTemplateId_v1_def discoverIfMissing_v1_def storeUsedIn_v1_def
  addSharedPartToReconciliation_try_def addSharedPartToReconciliation_def

lemma getTemplateId_v1_not_found:
  assumes "SF_find d Firm firmId tt h = Resolves None"
  shows "fst (getTemplateId_v1 d firmId tt h w) = Returned False"
    and "configs (snd (getTemplateId_v1 d firmId tt h w)) = configs w"
    and "\<forall>k h' c. WriteConfig k h' c \<in> set (trace (snd (getTemplateId_v1 d firmId tt h w)))
            \<longrightarrow> WriteConfig k h' c \<in> set (trace w)"
    and "\<forall>k h'. ReadConfig k h' \<in> set (trace (snd (getTemplateId_v1 d firmId tt h w)))
            \<longrightarrow> ReadConfig k h' \<in> set (trace w)"
  using assms by (auto simp: getTemplateId_v1_def emit_def)

lemma getTemplateId_v1_found:
  assumes "SF_find d Firm firmId tt h = Resolves (Some t)"
    and "tt = ReconciliationText \<or> tt = SharedPart"
  shows "fst (getTemplateId_v1 d firmId tt h w) = Returned True"
    and "cfg_id (configs (snd (getTemplateId_v1 d firmId tt h w)) (tt, h))
           = Some (fmupd firmId (r_id t) (id_map (configs w (tt, h))))"
    and "\<forall>k. k \<noteq> (tt, h) \<longrightarrow> configs (snd (getTemplateId_v1 d firmId tt h w)) k = configs w k"
  using assms
  by (auto simp: getTemplateId_v1_def readConfig_def writeConfig_def emit_def id_map_def Let_def
        split: option.splits)

lemma addSharedPartToReconciliation_accepts_status_500:
  "addSharedPartToReconciliation (answers 500) 111 ''sp_x'' ''recon_y'' (repo [])
     = (Returned True,
        (repo [])\<lparr>configs := (configs (repo []))
             ((SharedPart, ''sp_x'') := sp_x_config
                [\<lparr>ue_id = Some (fmupd 111 42 fmempty), ue_partnerId = None,
                  ue_type = ''reconciliation'', ue_handle = Some ''recon_y'', ue_name = None\<rparr>],
              (ReconciliationText, ''recon_y'') := recon_y_config),
           present := present (repo []),
           trace := [ReadConfig ReconciliationText ''recon_y'', ReadConfig SharedPart ''sp_x'',
             Gateway (Attach Firm 111 ReconciliationText (Some 7) (Some 42)),
             WriteConfig SharedPart ''sp_x'' (sp_x_config
                [\<lparr>ue_id = Some (fmupd 111 42 fmempty), ue_partnerId = None,
                  ue_type = ''reconciliation'', ue_handle = Some ''recon_y'', ue_name = None\<rparr>]),
             WriteConfig ReconciliationText ''recon_y'' recon_y_config]\<rparr>)"
  by (simp add: example_defs operation_defs v1_defs Let_def fun_eq_iff)

text \<open>
  Its bookkeeping, too, never adds a second entry for a handle: the number of entries with
  the reconciliation's handle stays what it was, or becomes one if it was zero.
\<close>

lemma storeUsedIn_v1_no_duplicate:
  assumes "storeUsedIn_v1 firmId ids h c = Some c'"
  shows "length (filter (\<lambda>u. ue_handle u = Some h) (used_list c'))
           = max 1 (length (filter (\<lambda>u. ue_handle u = Some h) (used_list c)))"
proof (cases "findIndex (\<lambda>u. ue_handle u = Some h) (used_list c)")
  case None
  then have "filter (\<lambda>u. ue_handle u = Some h) (used_list c) = []"
    by (simp add: findIndex_None filter_empty_conv)
  with None assms show ?thesis
    by (auto simp: storeUsedIn_v1_def used_list_def Let_def split: option.splits)
next
  case (Some i)
  have i: "i < length (used_list c)" and hi: "ue_handle (used_list c ! i) = Some h"
    using findIndex_Some[OF Some] by simp_all
  from Some assms obtain m
    where c': "used_list c' = (used_list c)[i := (used_list c ! i)\<lparr>ue_id :=
                 Some (assign firmId (fmlookup ids firmId) m)\<rparr>]"
    by (auto simp: storeUsedIn_v1_def used_list_def Let_def split: option.splits)
  have "used_list c ! i \<in> set (filter (\<lambda>u. ue_handle u = Some h) (used_list c))"
    using i hi by simp
  then have pos: "1 \<le> length (filter (\<lambda>u. ue_handle u = Some h) (used_list c))"
    by (cases "filter (\<lambda>u. ue_handle u = Some h) (used_list c)") auto
  show ?thesis
    using pos length_filter_update[OF i, of "\<lambda>u. ue_handle u = Some h"
            "(used_list c ! i)\<lparr>ue_id := Some (assign firmId (fmlookup ids firmId) m)\<rparr>"]
    by (simp add: c' max_def)
qed

end
